theory Spec2Isabelle
  imports Complex_Main
begin

section \<open>Data shared by the three monitors\<close>

text \<open>
  The repository holds three monitors: \<^verbatim>\<open>EnhancedSafetyMonitor\<close> (enhanced_safety_model.py),
  \<^verbatim>\<open>MultiCameraMonitor\<close> (multi_camera_monitor.py) and \<^verbatim>\<open>SafetyMonitor\<close>
  (camera_monitor.py). Python floats (brightness, clock readings, pixel coordinates) are
  modelled as \<^typ>\<open>real\<close>; the severity strings form an enumeration.
\<close>

datatype severity = LOW | MEDIUM | MAY_RISK | HIGH | CRITICAL

datatype py_error = IndexError

type_synonym bbox = "real \<times> real \<times> real \<times> real"

text \<open>One entry of \<^verbatim>\<open>detection.boxes\<close>: \<^verbatim>\<open>int(box.cls[0])\<close>, \<^verbatim>\<open>float(box.conf[0])\<close>
  and \<^verbatim>\<open>box.xyxy[0]\<close>.\<close>

record det_box =
  cls :: int
  conf :: real
  xyxy :: bbox

text \<open>What a POST to \<^verbatim>\<open>/send-alert\<close> does: a response with a status code, or an exception
  raised by \<^verbatim>\<open>requests.post\<close>, with its text \<^verbatim>\<open>str(e)\<close>.\<close>

datatype http_outcome = Status nat | TransportError string

text \<open>Python's \<^verbatim>\<open>needle in haystack\<close> on strings.\<close>

fun str_contains :: "string \<Rightarrow> string \<Rightarrow> bool" where
  "str_contains needle [] = (needle = [])"
| "str_contains needle (c # cs) =
     (take (length needle) (c # cs) = needle \<or> str_contains needle cs)"

section \<open>EnhancedSafetyMonitor: tracker\<close>

text \<open>An entry of \<^verbatim>\<open>person_tracks\<close>; the two deques have \<^verbatim>\<open>maxlen=30\<close>.\<close>

record track =
  positions :: "(real \<times> real) list"
  timestamps :: "real list"
  first_seen :: "real option"
  last_alerted :: "real option"

definition default_track :: track where
  "default_track = \<lparr>positions = [], timestamps = [], first_seen = None, last_alerted = None\<rparr>"

text \<open>\<^verbatim>\<open>deque(maxlen=30).append\<close>: a full deque drops its oldest element.\<close>

definition deque_append :: "'a list \<Rightarrow> 'a \<Rightarrow> 'a list" where
  "deque_append xs x = (if length xs < 30 then xs @ [x] else tl xs @ [x])"

text \<open>The loop of \<^verbatim>\<open>calculate_speed\<close>, with \<^verbatim>\<open>total_distance\<close> as accumulator.\<close>

fun total_distance :: "real \<Rightarrow> (real \<times> real) list \<Rightarrow> real" where
  "total_distance acc (p # q # ps) =
     total_distance (acc + sqrt ((fst q - fst p)\<^sup>2 + (snd q - snd p)\<^sup>2)) (q # ps)"
| "total_distance acc [p] = acc"
| "total_distance acc [] = acc"

text \<open>\<^verbatim>\<open>timestamps[-1]\<close> raises IndexError on an empty list.\<close>

definition calculate_speed :: "(real \<times> real) list \<Rightarrow> real list \<Rightarrow> py_error + real" where
  "calculate_speed positions' timestamps' =
     (if length positions' < 2 then Inr 0
      else if timestamps' = [] then Inl IndexError
      else (let time_diff = last timestamps' - hd timestamps'
            in if time_diff > 0 then Inr (total_distance 0 positions' / time_diff)
               else Inr 0))"

text \<open>Python's \<^verbatim>\<open>max\<close> and \<^verbatim>\<open>min\<close> of a list; \<^verbatim>\<open>detect_loitering\<close> calls them only on
  lists of more than ten elements.\<close>

fun py_max :: "real list \<Rightarrow> real" where
  "py_max (x # xs) = fold max xs x"

fun py_min :: "real list \<Rightarrow> real" where
  "py_min (x # xs) = fold min xs x"

definition detect_loitering :: "track \<Rightarrow> real \<Rightarrow> bool" where
  "detect_loitering track_data current_time =
     (case first_seen track_data of
        None \<Rightarrow> False
      | Some fs \<Rightarrow>
          (let time_in_area = current_time - fs
           in if time_in_area > 300
              then (let ps = positions track_data
                    in if length ps > 10
                       then (let x_coords = map fst ps;
                                 y_coords = map snd ps;
                                 area_radius = max (py_max x_coords - py_min x_coords)
                                                   (py_max y_coords - py_min y_coords)
                             in if area_radius < 100 then True else False)
                       else False)
              else False))"

definition detect_running :: "real \<Rightarrow> bool" where
  "detect_running speed = (speed > 50)"

section \<open>EnhancedSafetyMonitor: crowd density and risk zones\<close>

datatype crowd_level = Empty | VeryCrowded | Crowded | Moderate | Sparse

text \<open>An element of \<^verbatim>\<open>persons\<close> in \<^verbatim>\<open>analyze_scene_advanced\<close>.\<close>

record person =
  pid :: nat
  pbbox :: bbox
  center :: "real \<times> real"
  confidence :: real

definition calculate_bbox_area :: "bbox \<Rightarrow> real" where
  "calculate_bbox_area b = (case b of (b0, b1, b2, b3) \<Rightarrow> (b2 - b0) * (b3 - b1))"

text \<open>\<^verbatim>\<open>frame_shape\<close> is (height, width) of a captured frame; both are positive for every
  frame that \<^verbatim>\<open>cap.read()\<close> delivers, and the theorems below assume so where the ratio
  matters.\<close>

definition analyze_crowd_density :: "person list \<Rightarrow> nat \<times> nat \<Rightarrow> crowd_level \<times> real" where
  "analyze_crowd_density persons frame_shape =
     (if length persons = 0 then (Empty, 0)
      else (let frame_area = real (fst frame_shape * snd frame_shape);
                person_area = sum_list (map (\<lambda>p. calculate_bbox_area (pbbox p)) persons);
                density_ratio = person_area / frame_area
            in if density_ratio > 0.6 then (VeryCrowded, density_ratio)
               else if density_ratio > 0.3 then (Crowded, density_ratio)
               else if density_ratio > 0.1 then (Moderate, density_ratio)
               else (Sparse, density_ratio)))"

datatype camera_id = CamInt int | CamStr string

record location =
  loc_name :: string
  lat :: real
  lng :: real
  risk_zones :: "bbox list"

text \<open>\<^verbatim>\<open>self.camera_locations\<close> of EnhancedSafetyMonitor.\<close>

definition camera_locations :: "camera_id \<Rightarrow> location option" where
  "camera_locations k =
     (if k = CamInt 0 then
        Some \<lparr>loc_name = ''Park Street - North Gate'', lat = 11.1085, lng = 77.3411,
              risk_zones = [(100, 100, 300, 300)]\<rparr>
      else if k = CamInt 1 then
        Some \<lparr>loc_name = ''Market Road Junction'', lat = 11.1095, lng = 77.3421,
              risk_zones = []\<rparr>
      else if k = CamStr ''video'' then
        Some \<lparr>loc_name = ''Main Street Camera'', lat = 11.1075, lng = 77.3401,
              risk_zones = []\<rparr>
      else None)"

text \<open>\<^verbatim>\<open>self.camera_locations.get(camera_id, self.camera_locations[0])\<close>; key 0 is always
  present.\<close>

definition get_location :: "camera_id \<Rightarrow> location" where
  "get_location k =
     (case camera_locations k of
        Some l \<Rightarrow> l
      | None \<Rightarrow> \<lparr>loc_name = ''Park Street - North Gate'', lat = 11.1085, lng = 77.3411,
                  risk_zones = [(100, 100, 300, 300)]\<rparr>)"

definition is_in_risk_zone :: "bbox \<Rightarrow> camera_id \<Rightarrow> bool" where
  "is_in_risk_zone b k =
     (case b of (b0, b1, b2, b3) \<Rightarrow>
        (let location = get_location k;
             person_center_x = (b0 + b2) / 2;
             person_center_y = (b1 + b3) / 2
         in list_ex (\<lambda>(z0, z1, z2, z3). z0 \<le> person_center_x \<and> person_center_x \<le> z2 \<and>
                                           z1 \<le> person_center_y \<and> person_center_y \<le> z3)
              (risk_zones location)))"

section \<open>EnhancedSafetyMonitor: scene analysis\<close>

text \<open>\<^verbatim>\<open>person_tracks\<close> is a defaultdict keyed by \<^verbatim>\<open>f"person_{i}"\<close>; the key is modelled by
  the index \<open>i\<close>. Reading a missing key stores and returns the default entry.\<close>

type_synonym tracks = "nat \<Rightarrow> track option"

definition lookup_track :: "tracks \<Rightarrow> nat \<Rightarrow> track \<times> tracks" where
  "lookup_track tr i =
     (case tr i of None \<Rightarrow> (default_track, tr(i \<mapsto> default_track)) | Some t \<Rightarrow> (t, tr))"

definition update_tracking :: "tracks \<Rightarrow> nat \<Rightarrow> real \<times> real \<Rightarrow> real \<Rightarrow> tracks" where
  "update_tracking tr i c current_time =
     (let (t, tr1) = lookup_track tr i;
          t1 = (if first_seen t = None then t\<lparr>first_seen := Some current_time\<rparr> else t);
          t2 = t1\<lparr>positions := deque_append (positions t1) c\<rparr>;
          t3 = t2\<lparr>timestamps := deque_append (timestamps t2) current_time\<rparr>
      in tr1(i \<mapsto> t3))"

text \<open>The inner loop \<^verbatim>\<open>for i, box in enumerate(detection.boxes)\<close> and the outer loop over
  \<^verbatim>\<open>detections\<close>.\<close>

fun extract_boxes ::
  "real \<Rightarrow> nat \<Rightarrow> det_box list \<Rightarrow> person list \<times> tracks \<Rightarrow> person list \<times> tracks" where
  "extract_boxes current_time i [] acc = acc"
| "extract_boxes current_time i (b # bs) (prs, tr) =
     (if cls b = 0 \<and> conf b > 0.5
      then (case xyxy b of (b0, b1, b2, b3) \<Rightarrow>
              (let c = ((b0 + b2) / 2, (b1 + b3) / 2)
               in extract_boxes current_time (Suc i) bs
                    (prs @ [\<lparr>pid = i, pbbox = xyxy b, center = c, confidence = conf b\<rparr>],
                     update_tracking tr i c current_time)))
      else extract_boxes current_time (Suc i) bs (prs, tr))"

fun extract_persons ::
  "real \<Rightarrow> det_box list list \<Rightarrow> person list \<times> tracks \<Rightarrow> person list \<times> tracks" where
  "extract_persons current_time [] acc = acc"
| "extract_persons current_time (d # ds) acc =
     extract_persons current_time ds (extract_boxes current_time 0 d acc)"

text \<open>A frame, as far as the monitors look at it: \<^verbatim>\<open>np.mean(gray)\<close> and
  \<^verbatim>\<open>frame.shape[:2]\<close>.\<close>

record frame =
  mean_gray :: real
  shape :: "nat \<times> nat"

text \<open>The dictionary returned by \<^verbatim>\<open>analyze_scene_advanced\<close>, without its
  \<^verbatim>\<open>description\<close> text.\<close>

record analysis =
  ea_person_count :: nat
  ea_severity :: severity
  ea_alert_type :: string
  ea_brightness :: real
  ea_is_dark :: bool
  ea_crowd_level :: crowd_level
  ea_crowd_density :: real
  ea_risk_factors :: "string list"
  ea_persons :: "person list"

text \<open>\<^verbatim>\<open>current_time\<close> is the reading of \<^verbatim>\<open>time.time()\<close> at entry. The function returns the
  analysis together with the updated \<^verbatim>\<open>person_tracks\<close>.\<close>

definition analyze_scene_advanced ::
  "frame \<Rightarrow> det_box list list \<Rightarrow> camera_id \<Rightarrow> real \<Rightarrow> tracks \<Rightarrow> py_error + (analysis \<times> tracks)" where
  "analyze_scene_advanced fr detections k current_time tr0 =
     (let (prs, tr1) = extract_persons current_time detections ([], tr0);
          brightness = mean_gray fr;
          is_dark = brightness < 80;
          is_very_dark = brightness < 50;
          (crowd, density) = analyze_crowd_density prs (shape fr);
          num_persons = length prs;
          result = (\<lambda>sev ty rf tr.
            Inr (\<lparr>ea_person_count = num_persons, ea_severity = sev, ea_alert_type = ty,
                  ea_brightness = brightness, ea_is_dark = is_dark, ea_crowd_level = crowd,
                  ea_crowd_density = density, ea_risk_factors = rf, ea_persons = prs\<rparr>, tr))
      in if num_persons = 1 \<and> is_very_dark then
           result CRITICAL ''Lone Woman - Very Dark Area''
             [''Very poor lighting'', ''Isolated individual''] tr1
         else if num_persons = 1 \<and> is_dark then
           (let (track_data, tr2) = lookup_track tr1 0
            in if detect_loitering track_data current_time then
                 result CRITICAL ''Loitering Detected - Dark Area''
                   [''Loitering behavior'', ''Poor lighting''] tr2
               else
                 result HIGH ''Lone Woman - Dark Area''
                   [''Poor lighting'', ''Isolated individual''] tr2)
         else if num_persons = 2 then
           (let in_risk_zone = list_ex (\<lambda>p. is_in_risk_zone (pbbox p) k) prs
            in if in_risk_zone \<and> is_dark then
                 result CRITICAL ''Multiple Persons in Risk Zone''
                   [''High-risk location'', ''Poor lighting''] tr1
               else if is_dark then
                 result HIGH ''Two Persons - Dark Area'' [''Poor lighting''] tr1
               else
                 result MEDIUM ''Two Persons Detected'' [] tr1)
         else if num_persons = 1 then
           (let (track_data, tr2) = lookup_track tr1 0
            in case calculate_speed (positions track_data) (timestamps track_data) of
                 Inl e \<Rightarrow> Inl e
               | Inr speed \<Rightarrow>
                   if detect_running speed then
                     result HIGH ''Running Person Detected'' [''Rapid movement''] tr2
                   else
                     result MEDIUM ''Lone Woman Detected'' [] tr2)
         else if crowd = VeryCrowded then
           result MEDIUM ''Very Crowded Area'' [''Crowd safety concern''] tr1
         else if num_persons \<ge> 3 then
           result LOW ''Multiple Persons'' [] tr1
         else
           result LOW ''Normal Activity'' [] tr1)"

section \<open>Alerts\<close>

text \<open>The JSON body posted to \<^verbatim>\<open>/send-alert\<close>. The keys kept are those common to the three
  monitors; \<open>time\<close> is the clock reading of the iteration that built the alert (the source
  formats \<^verbatim>\<open>datetime.now()\<close>, read an instant after \<^verbatim>\<open>time.time()\<close>).\<close>

record alert_data =
  place :: string
  alert_kind :: string
  alert_severity :: severity
  alert_lat :: real
  alert_lng :: real
  alert_time :: real
  lighting :: string

definition alert_cooldown :: real where
  "alert_cooldown = 30"

text \<open>\<^verbatim>\<open>EnhancedSafetyMonitor.send_alert\<close>. The state is \<^verbatim>\<open>self.last_alert_time\<close>; the result is
  the returned flag, the request posted (if any) and the new state. \<open>outcome\<close> is what the
  POST does when it is made.\<close>

definition send_alert_enhanced ::
  "camera_id \<Rightarrow> analysis \<Rightarrow> real \<Rightarrow> http_outcome \<Rightarrow> (camera_id \<Rightarrow> real option)
     \<Rightarrow> bool \<times> alert_data option \<times> (camera_id \<Rightarrow> real option)" where
  "send_alert_enhanced k a current_time outcome last_alert_time =
     (if (case last_alert_time k of
            Some t \<Rightarrow> current_time - t < alert_cooldown
          | None \<Rightarrow> False)
      then (False, None, last_alert_time)
      else if ea_severity a \<in> set [CRITICAL, HIGH, MEDIUM] then
        (let location = get_location k;
             alert = \<lparr>place = loc_name location, alert_kind = ea_alert_type a,
                      alert_severity = ea_severity a, alert_lat = lat location,
                      alert_lng = lng location, alert_time = current_time,
                      lighting = (if ea_brightness a < 50 then ''Very Dark''
                                  else if ea_is_dark a then ''Dark'' else ''Well-lit'')\<rparr>
         in case outcome of
              Status code \<Rightarrow>
                if code = 200 then (True, Some alert, last_alert_time(k \<mapsto> current_time))
                else (False, Some alert, last_alert_time)
            | TransportError msg \<Rightarrow> (False, Some alert, last_alert_time))
      else (False, None, last_alert_time))"

section \<open>SafetyMonitor (camera\_monitor.py)\<close>

text \<open>Python's \<^verbatim>\<open>int\<close> of a float truncates towards zero.\<close>

definition py_int :: "real \<Rightarrow> int" where
  "py_int r = (if r \<ge> 0 then \<lfloor>r\<rfloor> else \<lceil>r\<rceil>)"

type_synonym ibox = "int \<times> int \<times> int \<times> int"

record sm_analysis =
  men_count :: nat
  women_count :: nat
  total :: nat
  sm_severity :: severity
  sm_alert_type :: string
  sm_brightness :: real
  sm_is_dark :: bool

text \<open>The detection loop of \<^verbatim>\<open>analyze_scene\<close>; the accumulator is
  \<^verbatim>\<open>(persons, men, women)\<close>.\<close>

fun sort_boxes :: "det_box list \<Rightarrow> ibox list \<times> ibox list \<times> ibox list
    \<Rightarrow> ibox list \<times> ibox list \<times> ibox list" where
  "sort_boxes [] acc = acc"
| "sort_boxes (b # bs) (prs, men, women) =
     (if cls b = 0 then
        (let confidence = conf b
         in if confidence > 0.5 then
              (case xyxy b of (f1, g1, f2, g2) \<Rightarrow>
                 (let x1 = py_int f1; y1 = py_int g1; x2 = py_int f2; y2 = py_int g2;
                      h = y2 - y1; w = x2 - x1;
                      aspect = real_of_int h / (real_of_int w + 1 / 1000000)
                  in if aspect > 2.2
                     then sort_boxes bs (prs @ [(x1, y1, x2, y2)], men, women @ [(x1, y1, x2, y2)])
                     else sort_boxes bs (prs @ [(x1, y1, x2, y2)], men @ [(x1, y1, x2, y2)], women)))
            else sort_boxes bs (prs, men, women))
      else sort_boxes bs (prs, men, women))"

fun sort_detections :: "det_box list list \<Rightarrow> ibox list \<times> ibox list \<times> ibox list
    \<Rightarrow> ibox list \<times> ibox list \<times> ibox list" where
  "sort_detections [] acc = acc"
| "sort_detections (d # ds) acc = sort_detections ds (sort_boxes d acc)"

definition analyze_scene :: "frame \<Rightarrow> det_box list list \<Rightarrow> sm_analysis" where
  "analyze_scene fr detections =
     (case sort_detections detections ([], [], []) of (prs, men, women) \<Rightarrow>
        (let brightness = mean_gray fr;
             is_dark = brightness < 70;
             (sev, ty) =
               (if length women = 1 \<and> (length men = 0 \<and> is_dark) then
                  (HIGH, ''Lone Woman - Dark Area'')
                else if length women = 1 \<and> length men \<ge> 2 then
                  (MAY_RISK, ''Woman Surrounded by Men'')
                else if 1 \<le> length women \<and> length women \<le> 2 \<and> length men \<ge> 3 then
                  (MAY_RISK, ''Few Women in Male Group'')
                else if length women = 1 \<and> \<not> is_dark then
                  (MEDIUM, ''Lone Woman'')
                else (LOW, ''Normal Activity''))
         in \<lparr>men_count = length men, women_count = length women, total = length prs,
              sm_severity = sev, sm_alert_type = ty, sm_brightness = brightness,
              sm_is_dark = is_dark\<rparr>))"

text \<open>\<^verbatim>\<open>self.camera_locations\<close> of SafetyMonitor.\<close>

definition camera_locations_basic :: "camera_id \<Rightarrow> location option" where
  "camera_locations_basic k =
     (if k = CamInt 0 then
        Some \<lparr>loc_name = ''Park Street Entrance'', lat = 11.1085, lng = 77.3411, risk_zones = []\<rparr>
      else if k = CamInt 1 then
        Some \<lparr>loc_name = ''Market Road Junction'', lat = 11.1095, lng = 77.3421, risk_zones = []\<rparr>
      else if k = CamStr ''video'' then
        Some \<lparr>loc_name = ''Main Street Camera'', lat = 11.1075, lng = 77.3401, risk_zones = []\<rparr>
      else None)"

text \<open>\<^verbatim>\<open>SafetyMonitor.send_alert\<close>: the request posted (if any) and the new
  \<^verbatim>\<open>self.last_alert_time\<close>.\<close>

definition send_alert_basic ::
  "camera_id \<Rightarrow> sm_analysis \<Rightarrow> real \<Rightarrow> http_outcome \<Rightarrow> (camera_id \<Rightarrow> real option)
     \<Rightarrow> alert_data option \<times> (camera_id \<Rightarrow> real option)" where
  "send_alert_basic k a now outcome last_alert_time =
     (if (case last_alert_time k of Some t \<Rightarrow> now - t < alert_cooldown | None \<Rightarrow> False)
      then (None, last_alert_time)
      else if sm_severity a \<in> set [HIGH, MAY_RISK, MEDIUM] then
        (let location = (case camera_locations_basic k of
                           Some l \<Rightarrow> l
                         | None \<Rightarrow> \<lparr>loc_name = ''Park Street Entrance'', lat = 11.1085,
                                     lng = 77.3411, risk_zones = []\<rparr>);
             alert = \<lparr>place = loc_name location, alert_kind = sm_alert_type a,
                      alert_severity = sm_severity a, alert_lat = lat location,
                      alert_lng = lng location, alert_time = now,
                      lighting = (if sm_is_dark a then ''Dark'' else ''Well-lit'')\<rparr>
         in case outcome of
              Status code \<Rightarrow>
                if code = 200 then (Some alert, last_alert_time(k \<mapsto> now))
                else (Some alert, last_alert_time)
            | TransportError msg \<Rightarrow> (Some alert, last_alert_time))
      else (None, last_alert_time))"

section \<open>MultiCameraMonitor\<close>

record mc_person =
  mc_bbox :: bbox
  mc_confidence :: real

record mc_analysis =
  mc_person_count :: nat
  mc_severity :: severity
  mc_alert_type :: string
  mc_brightness :: real
  mc_is_dark :: bool
  mc_persons :: "mc_person list"

text \<open>\<^verbatim>\<open>analyze_frame\<close>; \<open>results\<close> is what \<^verbatim>\<open>self.model(frame)\<close> returned.\<close>

definition analyze_frame :: "frame \<Rightarrow> det_box list list \<Rightarrow> mc_analysis" where
  "analyze_frame fr results =
     (let prs = map (\<lambda>b. \<lparr>mc_bbox = xyxy b, mc_confidence = conf b\<rparr>)
                  (filter (\<lambda>b. cls b = 0 \<and> conf b > 0.5) (concat results));
          brightness = mean_gray fr;
          is_dark = brightness < 80;
          num_persons = length prs;
          (sev, ty) =
            (if num_persons = 1 \<and> brightness < 50 then (CRITICAL, ''Lone Woman - Very Dark Area'')
             else if num_persons = 1 \<and> is_dark then (HIGH, ''Lone Woman - Dark Area'')
             else if num_persons = 2 \<and> is_dark then (HIGH, ''Two Persons - Dark Area'')
             else if num_persons = 1 then (MEDIUM, ''Lone Woman Detected'')
             else if num_persons \<ge> 3 then (LOW, ''Multiple Persons'')
             else (LOW, ''Normal Activity''))
      in \<lparr>mc_person_count = num_persons, mc_severity = sev, mc_alert_type = ty,
           mc_brightness = brightness, mc_is_dark = is_dark, mc_persons = prs\<rparr>)"

record camera_config =
  cfg_name :: string
  cfg_lat :: real
  cfg_lng :: real
  enabled :: bool

datatype feed_status = Stopped | Running | Error

text \<open>An entry of \<^verbatim>\<open>self.camera_stats\<close>; \<open>last_alert\<close> holds the clock reading that the
  source formats as \<^verbatim>\<open>%H:%M:%S\<close>.\<close>

record feed_stats =
  frames_processed :: nat
  alerts_sent :: nat
  last_alert :: "real option"
  status :: feed_status

text \<open>The state shared by the threads of a MultiCameraMonitor. \<^verbatim>\<open>camera_stats\<close> has an entry
  for every configured camera, and workers are started for configured cameras only, so it
  is a total function on the camera ids in use.\<close>

record monitor =
  alert_queue :: "alert_data list"
  camera_stats :: "string \<Rightarrow> feed_stats"
  running :: bool

text \<open>The local variables of one \<^verbatim>\<open>camera_worker\<close> thread.\<close>

record worker_locals =
  frame_count :: nat
  last_alert_time :: real

text \<open>What one iteration of the worker loop obtains from outside: the frame read, the
  detector's output on it and the reading of \<^verbatim>\<open>time.time()\<close>.\<close>

record capture =
  cap_frame :: frame
  cap_results :: "det_box list list"
  cap_clock :: real

text \<open>The part of the loop body guarded by \<^verbatim>\<open>frame_count % 30 == 0\<close>.\<close>

definition process_frame ::
  "string \<Rightarrow> camera_config \<Rightarrow> capture \<Rightarrow> worker_locals \<times> monitor \<Rightarrow> worker_locals \<times> monitor" where
  "process_frame cam_id cfg c st =
     (case st of (loc, mon) \<Rightarrow>
        (let a = analyze_frame (cap_frame c) (cap_results c);
             current_time = cap_clock c
         in if mc_severity a \<in> set [CRITICAL, HIGH, MEDIUM] \<and>
               current_time - last_alert_time loc > 30
            then
              (let alert = \<lparr>place = cfg_name cfg, alert_kind = mc_alert_type a,
                            alert_severity = mc_severity a, alert_lat = cfg_lat cfg,
                            alert_lng = cfg_lng cfg, alert_time = current_time,
                            lighting = (if mc_is_dark a then ''Dark'' else ''Well-lit'')\<rparr>;
                   stats = camera_stats mon cam_id
               in (loc\<lparr>last_alert_time := current_time\<rparr>,
                   mon\<lparr>alert_queue := alert_queue mon @ [alert],
                       camera_stats := (camera_stats mon)
                         (cam_id := stats\<lparr>alerts_sent := alerts_sent stats + 1,
                                          last_alert := Some current_time\<rparr>)\<rparr>))
            else (loc, mon)))"

text \<open>One iteration of the loop of \<^verbatim>\<open>camera_worker\<close> after a successful \<^verbatim>\<open>cap.read()\<close>.\<close>

definition camera_worker_frame ::
  "string \<Rightarrow> camera_config \<Rightarrow> capture \<Rightarrow> worker_locals \<times> monitor \<Rightarrow> worker_locals \<times> monitor" where
  "camera_worker_frame cam_id cfg c st =
     (case st of (loc, mon) \<Rightarrow>
        (let loc1 = loc\<lparr>frame_count := frame_count loc + 1\<rparr>;
             mon1 = mon\<lparr>camera_stats := (camera_stats mon)
                      (cam_id := (camera_stats mon cam_id)\<lparr>frames_processed := frame_count loc1\<rparr>)\<rparr>
         in if frame_count loc1 mod 30 = 0 then process_frame cam_id cfg c (loc1, mon1)
            else (loc1, mon1)))"

text \<open>The loop \<^verbatim>\<open>while self.running\<close>: the list holds the frames the source delivers before the
  end of the stream.\<close>

fun camera_worker_loop ::
  "string \<Rightarrow> camera_config \<Rightarrow> capture list \<Rightarrow> worker_locals \<times> monitor \<Rightarrow> worker_locals \<times> monitor" where
  "camera_worker_loop cam_id cfg [] st = st"
| "camera_worker_loop cam_id cfg (c # cs) (loc, mon) =
     (if running mon then camera_worker_loop cam_id cfg cs (camera_worker_frame cam_id cfg c (loc, mon))
      else (loc, mon))"

text \<open>\<^verbatim>\<open>camera_worker\<close>; \<open>opened\<close> is the result of \<^verbatim>\<open>cap.isOpened()\<close>.\<close>

definition set_status :: "string \<Rightarrow> feed_status \<Rightarrow> monitor \<Rightarrow> monitor" where
  "set_status cam_id s mon =
     mon\<lparr>camera_stats := (camera_stats mon)(cam_id := (camera_stats mon cam_id)\<lparr>status := s\<rparr>)\<rparr>"

definition camera_worker :: "string \<Rightarrow> camera_config \<Rightarrow> bool \<Rightarrow> capture list \<Rightarrow> monitor \<Rightarrow> monitor" where
  "camera_worker cam_id cfg opened cs mon =
     (if \<not> opened then set_status cam_id Error mon
      else set_status cam_id Stopped
             (snd (camera_worker_loop cam_id cfg cs
                (\<lparr>frame_count = 0, last_alert_time = 0\<rparr>, set_status cam_id Running mon))))"

text \<open>What \<^verbatim>\<open>alert_sender_worker\<close> does to the outside: the requests posted and the lines
  printed.\<close>

datatype log_line = AlertSent | FailedStatus nat | SenderError

record sender_trace =
  posted :: "alert_data list"
  printed :: "log_line list"

text \<open>The handler \<^verbatim>\<open>except Exception as e\<close> of the sender loop: it prints its error line
  unless the text of the exception contains \<^verbatim>\<open>Empty\<close>.\<close>

definition handler_prints :: "string \<Rightarrow> log_line list" where
  "handler_prints msg = (if \<not> str_contains ''Empty'' msg then [SenderError] else [])"

text \<open>One iteration of the loop of \<^verbatim>\<open>alert_sender_worker\<close>. With an empty queue
  \<^verbatim>\<open>get(timeout=1)\<close> raises \<^verbatim>\<open>queue.Empty\<close>, whose \<^verbatim>\<open>str\<close> is the empty string. An
  exception of \<^verbatim>\<open>requests.post\<close> reaches the same handler with its own text; the alert
  has left the queue by then.\<close>

definition alert_sender_iteration ::
  "http_outcome \<Rightarrow> monitor \<times> sender_trace \<Rightarrow> monitor \<times> sender_trace" where
  "alert_sender_iteration outcome st =
     (case st of (mon, tr) \<Rightarrow>
        (case alert_queue mon of
           [] \<Rightarrow> (mon, tr\<lparr>printed := printed tr @ handler_prints []\<rparr>)
         | alert # rest \<Rightarrow>
             (let mon1 = mon\<lparr>alert_queue := rest\<rparr>;
                  tr1 = tr\<lparr>posted := posted tr @ [alert]\<rparr>
              in case outcome of
                   Status code \<Rightarrow>
                     if code = 200 then (mon1, tr1\<lparr>printed := printed tr1 @ [AlertSent]\<rparr>)
                     else (mon1, tr1\<lparr>printed := printed tr1 @ [FailedStatus code]\<rparr>)
                 | TransportError msg \<Rightarrow>
                     (mon1, tr1\<lparr>printed := printed tr1 @ handler_prints msg\<rparr>))))"

text \<open>The loop \<^verbatim>\<open>while self.running\<close> of the sender, one outcome per iteration.\<close>

fun alert_sender_worker ::
  "http_outcome list \<Rightarrow> monitor \<times> sender_trace \<Rightarrow> monitor \<times> sender_trace" where
  "alert_sender_worker [] st = st"
| "alert_sender_worker (outcome # os) (mon, tr) =
     (if running mon then alert_sender_worker os (alert_sender_iteration outcome (mon, tr))
      else (mon, tr))"

text \<open>The threads interleave at the granularity of loop iterations: a schedule lists which
  thread runs its next iteration. Each worker keeps its own locals.\<close>

datatype event = Frame string camera_config capture | Dispatch http_outcome

record system =
  sys_monitor :: monitor
  sys_locals :: "string \<Rightarrow> worker_locals"
  sys_trace :: sender_trace

fun step :: "event \<Rightarrow> system \<Rightarrow> system" where
  "step (Frame cam_id cfg c) s =
     (case camera_worker_frame cam_id cfg c (sys_locals s cam_id, sys_monitor s) of
        (loc, mon) \<Rightarrow> s\<lparr>sys_monitor := mon, sys_locals := (sys_locals s)(cam_id := loc)\<rparr>)"
| "step (Dispatch outcome) s =
     (case alert_sender_iteration outcome (sys_monitor s, sys_trace s) of
        (mon, tr) \<Rightarrow> s\<lparr>sys_monitor := mon, sys_trace := tr\<rparr>)"

definition run :: "event list \<Rightarrow> system \<Rightarrow> system" where
  "run es s = fold step es s"

text \<open>The system as \<^verbatim>\<open>start_monitoring\<close> leaves it before any worker iterates.\<close>

definition initial_system :: system where
  "initial_system =
     \<lparr>sys_monitor = \<lparr>alert_queue = [],
                      camera_stats = (\<lambda>_. \<lparr>frames_processed = 0, alerts_sent = 0,
                                             last_alert = None, status = Running\<rparr>),
                      running = True\<rparr>,
      sys_locals = (\<lambda>_. \<lparr>frame_count = 0, last_alert_time = 0\<rparr>),
      sys_trace = \<lparr>posted = [], printed = []\<rparr>\<rparr>"

section \<open>Notions of the specification\<close>

text \<open>The polyline length of a sequence of positions, as the specification words it: the
  sum of the Euclidean lengths of the segments between consecutive samples.\<close>

definition polyline_length :: "(real \<times> real) list \<Rightarrow> real" where
  "polyline_length ps =
     (\<Sum>i = 1..<length ps.
        sqrt ((fst (ps ! i) - fst (ps ! (i - 1)))\<^sup>2 + (snd (ps ! i) - snd (ps ! (i - 1)))\<^sup>2))"

text \<open>The person-and-confidence filter that all three monitors apply to the detector's
  boxes (class 0 is "person").\<close>

definition kept :: "det_box \<Rightarrow> bool" where
  "kept b = (cls b = 0 \<and> conf b > 0.5)"

text \<open>The aspect-ratio test of \<^verbatim>\<open>analyze_scene\<close> on a box: height over width (plus 1e-6) of
  the integer-truncated box above 2.2.\<close>

definition tall :: "det_box \<Rightarrow> bool" where
  "tall b = (case xyxy b of (f1, g1, f2, g2) \<Rightarrow>
     real_of_int (py_int g2 - py_int g1) / (real_of_int (py_int f2 - py_int f1) + 1 / 1000000) > 2.2)"

text \<open>The severity order of the specification: LOW < MEDIUM < MAY\_RISK < HIGH < CRITICAL.
  The code has no order on severities, only membership tests.\<close>

definition severity_rank :: "severity \<Rightarrow> nat" where
  "severity_rank s = (case s of LOW \<Rightarrow> 0 | MEDIUM \<Rightarrow> 1 | MAY_RISK \<Rightarrow> 2 | HIGH \<Rightarrow> 3 | CRITICAL \<Rightarrow> 4)"

text \<open>The decision policy of the specification (section 4.2), written from its words: the
  number of the first rule, in the order 1 to 11, whose condition holds. The thresholds are
  the defaults (very dark below 50, dark below 80, running above 50).\<close>

definition spec_rule :: "nat \<Rightarrow> real \<Rightarrow> bool \<Rightarrow> bool \<Rightarrow> real \<Rightarrow> crowd_level \<Rightarrow> nat" where
  "spec_rule personCount brightness loitering anyInRiskZone speed crowd =
     (if personCount = 1 \<and> brightness < 50 then 1
      else if personCount = 1 \<and> brightness < 80 \<and> loitering then 2
      else if personCount = 1 \<and> brightness < 80 then 3
      else if personCount = 2 \<and> anyInRiskZone \<and> brightness < 80 then 4
      else if personCount = 2 \<and> brightness < 80 then 5
      else if personCount = 2 then 6
      else if personCount = 1 \<and> speed > 50 then 7
      else if personCount = 1 then 8
      else if crowd = VeryCrowded then 9
      else if personCount \<ge> 3 then 10
      else 11)"

text \<open>The severity that the specification attaches to each rule.\<close>

definition rule_severity :: "nat \<Rightarrow> severity" where
  "rule_severity r =
     (if r = 1 \<or> r = 2 \<or> r = 4 then CRITICAL
      else if r = 3 \<or> r = 5 \<or> r = 7 then HIGH
      else if r = 6 \<or> r = 8 \<or> r = 9 then MEDIUM
      else LOW)"

text \<open>The label that \<^verbatim>\<open>analyze_scene_advanced\<close> uses for the category of each rule.\<close>

definition rule_alert_type :: "nat \<Rightarrow> string" where
  "rule_alert_type r =
     (if r = 1 then ''Lone Woman - Very Dark Area''
      else if r = 2 then ''Loitering Detected - Dark Area''
      else if r = 3 then ''Lone Woman - Dark Area''
      else if r = 4 then ''Multiple Persons in Risk Zone''
      else if r = 5 then ''Two Persons - Dark Area''
      else if r = 6 then ''Two Persons Detected''
      else if r = 7 then ''Running Person Detected''
      else if r = 8 then ''Lone Woman Detected''
      else if r = 9 then ''Very Crowded Area''
      else if r = 10 then ''Multiple Persons''
      else ''Normal Activity'')"

text \<open>The speed signal of a track; a track on which \<^verbatim>\<open>calculate_speed\<close> raises has none,
  and 0 stands in.\<close>

definition speed_signal :: "track \<Rightarrow> real" where
  "speed_signal t = (case calculate_speed (positions t) (timestamps t) of Inr v \<Rightarrow> v | Inl e \<Rightarrow> 0)"

text \<open>The two deques of a track are appended to together, so they have the same length in
  every state the code builds.\<close>

definition track_wf :: "track \<Rightarrow> bool" where
  "track_wf t = (length (positions t) = length (timestamps t))"

definition tracks_wf :: "tracks \<Rightarrow> bool" where
  "tracks_wf tr = (\<forall>i. case tr i of None \<Rightarrow> True | Some t \<Rightarrow> track_wf t)"

section \<open>Sample inputs\<close>

text \<open>A track of \<open>n\<close> samples taken 30 time-units apart, drifting one pixel per sample.\<close>

definition still_track :: "nat \<Rightarrow> track" where
  "still_track n = \<lparr>positions = map (\<lambda>i. (50 + real i, 60)) [0..<n],
                     timestamps = map (\<lambda>i. 30 * real i) [0..<n],
                     first_seen = Some 0, last_alerted = None\<rparr>"

definition one_person :: "bbox \<Rightarrow> person" where
  "one_person b = \<lparr>pid = 0, pbbox = b,
     center = ((fst b + fst (snd (snd b))) / 2, (fst (snd b) + snd (snd (snd b))) / 2),
     confidence = 0.9\<rparr>"

definition lone_box :: det_box where
  "lone_box = \<lparr>cls = 0, conf = 0.9, xyxy = (100, 100, 200, 400)\<rparr>"

definition box_at :: "real \<Rightarrow> det_box" where
  "box_at x = \<lparr>cls = 0, conf = 0.9, xyxy = (x, 0, x + 100, 200)\<rparr>"

definition small_box :: "real \<Rightarrow> det_box" where
  "small_box x = \<lparr>cls = 0, conf = 0.8, xyxy = (x, 0, x + 48, 80)\<rparr>"

definition dark_frame :: frame where
  "dark_frame = \<lparr>mean_gray = 30, shape = (480, 640)\<rparr>"

definition bright_frame :: frame where
  "bright_frame = \<lparr>mean_gray = 90, shape = (480, 640)\<rparr>"

definition cam1_config :: camera_config where
  "cam1_config = \<lparr>cfg_name = ''Park Street - North Gate'', cfg_lat = 11.1085, cfg_lng = 77.3411,
     enabled = True\<rparr>"

definition capture_at :: "real \<Rightarrow> capture" where
  "capture_at t = \<lparr>cap_frame = dark_frame, cap_results = [[lone_box]], cap_clock = t\<rparr>"

definition queued_alert :: "real \<Rightarrow> alert_data" where
  "queued_alert t = \<lparr>place = ''Park Street - North Gate'', alert_kind = ''Lone Woman - Very Dark Area'',
     alert_severity = CRITICAL, alert_lat = 11.1085, alert_lng = 77.3411, alert_time = t,
     lighting = ''Dark''\<rparr>"

text \<open>The analysis that \<^verbatim>\<open>analyze_scene_advanced\<close> returns for one person in a very
  dark frame.\<close>

definition critical_analysis :: analysis where
  "critical_analysis = \<lparr>ea_person_count = 1, ea_severity = CRITICAL,
     ea_alert_type = ''Lone Woman - Very Dark Area'', ea_brightness = 30, ea_is_dark = True,
     ea_crowd_level = Sparse, ea_crowd_density = 30000 / 307200,
     ea_risk_factors = [''Very poor lighting'', ''Isolated individual''],
     ea_persons = [\<lparr>pid = 0, pbbox = (100, 100, 200, 400), center = (150, 250), confidence = 0.9\<rparr>]\<rparr>"

text \<open>A monitor with two alerts waiting in the queue.\<close>

definition loaded_monitor :: monitor where
  "loaded_monitor = \<lparr>alert_queue = [queued_alert 1000, queued_alert 1040],
     camera_stats = (\<lambda>_. \<lparr>frames_processed = 2400, alerts_sent = 2, last_alert = Some 1040,
                            status = Running\<rparr>),
     running = True\<rparr>"

section \<open>Tracker: speed\<close>

lemma polyline_length_short: "length ps < 2 \<Longrightarrow> polyline_length ps = 0"
  by (cases ps) (auto simp: polyline_length_def)

lemma polyline_length_Cons2:
  "polyline_length (p # q # ps) =
     sqrt ((fst q - fst p)\<^sup>2 + (snd q - snd p)\<^sup>2) + polyline_length (q # ps)"
proof -
  let ?f = "\<lambda>xs i. sqrt ((fst (xs ! i) - fst (xs ! (i - 1)))\<^sup>2 + (snd (xs ! i) - snd (xs ! (i - 1)))\<^sup>2)"
  have "polyline_length (p # q # ps) = (\<Sum>i = 1..<Suc (Suc (length ps)). ?f (p # q # ps) i)"
    by (simp add: polyline_length_def)
  also have "\<dots> = ?f (p # q # ps) 1 + (\<Sum>i = Suc 1..<Suc (Suc (length ps)). ?f (p # q # ps) i)"
    by (rule sum.atLeast_Suc_lessThan) simp
  also have "(\<Sum>i = Suc 1..<Suc (Suc (length ps)). ?f (p # q # ps) i)
      = (\<Sum>i = 1..<Suc (length ps). ?f (p # q # ps) (Suc i))"
    by (rule sum.shift_bounds_Suc_ivl)
  also have "\<dots> = (\<Sum>i = 1..<Suc (length ps). ?f (q # ps) i)"
    by (rule sum.cong) auto
  finally show ?thesis by (simp add: polyline_length_def)
qed

lemma polyline_length_nonneg: "0 \<le> polyline_length ps"
  unfolding polyline_length_def by (rule sum_nonneg) simp

lemma total_distance_polyline: "total_distance acc ps = acc + polyline_length ps"
proof (induction acc ps rule: total_distance.induct)
  case (1 acc p q ps)
  then show ?case by (simp add: polyline_length_Cons2)
next
  case (2 acc p)
  then show ?case by (simp add: polyline_length_short)
next
  case (3 acc)
  then show ?case by (simp add: polyline_length_short)
qed

lemma sqrt25: "sqrt 25 = 5"
  using real_sqrt_abs [of 5] by simp

text \<open>
  Claim C5. For a track whose two deques hold the same number of samples in time order,
  \<^verbatim>\<open>calculate_speed\<close> returns a value (it does not raise), the value is non-negative, it is 0
  when fewer than two samples are stored or when oldest and newest sample carry the same
  time, and otherwise it is the polyline length of the stored positions divided by the
  time elapsed between the oldest and the newest sample.
\<close>

theorem calculate_speed_polyline:
  assumes "length ts = length ps" and "sorted ts"
  shows "\<exists>v. calculate_speed ps ts = Inr v \<and> 0 \<le> v \<and>
            v = (if length ps < 2 \<or> last ts - hd ts = 0 then 0
                 else polyline_length ps / (last ts - hd ts))"
proof (cases "length ps < 2")
  case True
  then show ?thesis by (simp add: calculate_speed_def)
next
  case False
  with assms have ne: "ts \<noteq> []" by auto
  then have "hd ts \<le> last ts"
    using assms(2) by (cases ts) auto
  then show ?thesis using False ne
    by (auto simp: calculate_speed_def Let_def total_distance_polyline polyline_length_nonneg)
qed

theorem calculate_speed_polyline_witness:
  "length [0, 1 :: real] = length [(0, 0), (3, 4 :: real)] \<and> sorted [0, 1 :: real] \<and>
   calculate_speed [(0, 0), (3, 4)] [0, 1] = Inr 5 \<and>
   polyline_length [(0, 0), (3, 4)] / (last [0, 1] - hd [0, 1]) = 5"
  using calculate_speed_polyline [of "[0, 1]" "[(0, 0), (3, 4)]"]
  by (auto simp: polyline_length_def sqrt25)

section \<open>Tracker: loitering\<close>

lemma py_max_Max: "xs \<noteq> [] \<Longrightarrow> py_max xs = Max (set xs)"
  by (cases xs) (simp_all add: Max.set_eq_fold [symmetric])

lemma py_min_Min: "xs \<noteq> [] \<Longrightarrow> py_min xs = Min (set xs)"
  by (cases xs) (simp_all add: Min.set_eq_fold [symmetric])

lemma extent_less_iff:
  assumes "xs \<noteq> []"
  shows "py_max xs - py_min xs < c \<longleftrightarrow> (\<forall>a\<in>set xs. \<forall>b\<in>set xs. a - b < c)"
proof -
  have fin: "finite (set xs)" and ne: "set xs \<noteq> {}" using assms by auto
  have mx: "Max (set xs) \<in> set xs" and mn: "Min (set xs) \<in> set xs"
    using fin ne by (auto intro: Max_in Min_in)
  show ?thesis
  proof
    assume h: "py_max xs - py_min xs < c"
    show "\<forall>a\<in>set xs. \<forall>b\<in>set xs. a - b < c"
    proof (intro ballI)
      fix a b assume "a \<in> set xs" "b \<in> set xs"
      then have "a \<le> Max (set xs)" "Min (set xs) \<le> b" using fin by auto
      with h show "a - b < c" by (simp add: py_max_Max py_min_Min assms)
    qed
  next
    assume "\<forall>a\<in>set xs. \<forall>b\<in>set xs. a - b < c"
    with mx mn show "py_max xs - py_min xs < c"
      by (simp add: py_max_Max py_min_Min assms)
  qed
qed

text \<open>
  Claim C3, as the code has it. \<^verbatim>\<open>detect_loitering\<close> answers true if and only if the track
  has a first-seen time with \<open>now - first_seen > 300\<close>, MORE THAN ten positions are stored
  (\<^verbatim>\<open>len(positions) > 10\<close>, so at least eleven), and the stored positions spread over less
  than 100 units in x and in y (any two of them differ by less than 100 in each
  coordinate, which is max minus min below 100).
\<close>

theorem detect_loitering_iff:
  "detect_loitering td now \<longleftrightarrow>
     (\<exists>fs. first_seen td = Some fs \<and> now - fs > 300) \<and>
     length (positions td) > 10 \<and>
     (\<forall>p\<in>set (positions td). \<forall>q\<in>set (positions td).
        fst p - fst q < 100 \<and> snd p - snd q < 100)"
proof (cases "first_seen td")
  case None
  then show ?thesis by (simp add: detect_loitering_def)
next
  case (Some fs)
  show ?thesis
  proof (cases "now - fs > 300 \<and> length (positions td) > 10")
    case False
    then show ?thesis using Some by (auto simp: detect_loitering_def Let_def)
  next
    case True
    then have ne: "map fst (positions td) \<noteq> []" "map snd (positions td) \<noteq> []" by auto
    have "detect_loitering td now \<longleftrightarrow>
        py_max (map fst (positions td)) - py_min (map fst (positions td)) < 100 \<and>
        py_max (map snd (positions td)) - py_min (map snd (positions td)) < 100"
      using Some True by (simp add: detect_loitering_def Let_def)
    also have "\<dots> \<longleftrightarrow> (\<forall>p\<in>set (positions td). \<forall>q\<in>set (positions td).
        fst p - fst q < 100 \<and> snd p - snd q < 100)"
      unfolding extent_less_iff[OF ne(1)] extent_less_iff[OF ne(2)] by auto
    finally show ?thesis using Some True by simp
  qed
qed

theorem detect_loitering_iff_witness:
  "detect_loitering (still_track 11) 301"
  unfolding detect_loitering_iff [of "still_track 11" 301]
  by (simp add: still_track_def upt_rec)

text \<open>With exactly ten stored samples, a dwell of 301 and an extent of 9 by 0, the code
  answers false, where claim C3 as stated says true.\<close>

theorem detect_loitering_ten_counterexample:
  "length (positions (still_track 10)) = 10 \<and>
   first_seen (still_track 10) = Some 0 \<and> (301::real) - 0 > 300 \<and>
   py_max (map fst (positions (still_track 10))) - py_min (map fst (positions (still_track 10))) < 100 \<and>
   py_max (map snd (positions (still_track 10))) - py_min (map snd (positions (still_track 10))) < 100 \<and>
   \<not> detect_loitering (still_track 10) 301"
  by (simp add: still_track_def upt_rec detect_loitering_def)

section \<open>Crowd density\<close>

lemma analyze_crowd_density_ratio:
  assumes "prs \<noteq> []"
  shows "analyze_crowd_density prs frame_shape =
      (let r = (\<Sum>p\<leftarrow>prs. calculate_bbox_area (pbbox p)) / real (fst frame_shape * snd frame_shape)
       in if r > 0.6 then (VeryCrowded, r) else if r > 0.3 then (Crowded, r)
          else if r > 0.1 then (Moderate, r) else (Sparse, r))"
  using assms unfolding analyze_crowd_density_def Let_def by simp

text \<open>
  Claim C9, as the code has it. With no person the bucket is \<^verbatim>\<open>"empty"\<close> (not sparse)
  and the ratio 0. With at least one person, on a frame of positive area, the ratio
  returned is the summed box area over the frame area, and the bucket is very-crowded
  exactly above 0.6, crowded exactly in (0.3, 0.6], moderate exactly in (0.1, 0.3] and
  sparse exactly up to 0.1.
\<close>

theorem analyze_crowd_density_buckets:
  "analyze_crowd_density [] frame_shape = (Empty, 0) \<and>
   (prs \<noteq> [] \<and> 0 < fst frame_shape * snd frame_shape \<longrightarrow>
      (let r = (\<Sum>p\<leftarrow>prs. calculate_bbox_area (pbbox p)) / real (fst frame_shape * snd frame_shape);
           lvl = fst (analyze_crowd_density prs frame_shape)
       in snd (analyze_crowd_density prs frame_shape) = r \<and>
          (lvl = VeryCrowded \<longleftrightarrow> r > 0.6) \<and>
          (lvl = Crowded \<longleftrightarrow> 0.3 < r \<and> r \<le> 0.6) \<and>
          (lvl = Moderate \<longleftrightarrow> 0.1 < r \<and> r \<le> 0.3) \<and>
          (lvl = Sparse \<longleftrightarrow> r \<le> 0.1)))"
proof -
  define r where "r = (\<Sum>p\<leftarrow>prs. calculate_bbox_area (pbbox p)) / real (fst frame_shape * snd frame_shape)"
  have e: "analyze_crowd_density [] frame_shape = (Empty, 0)"
    by (simp add: analyze_crowd_density_def)
  have *: "analyze_crowd_density prs frame_shape =
      (if r > 0.6 then (VeryCrowded, r) else if r > 0.3 then (Crowded, r)
       else if r > 0.1 then (Moderate, r) else (Sparse, r))" if "prs \<noteq> []"
    using analyze_crowd_density_ratio[OF that, of frame_shape] unfolding r_def Let_def .
  have "snd (analyze_crowd_density prs frame_shape) = r \<and>
          (fst (analyze_crowd_density prs frame_shape) = VeryCrowded \<longleftrightarrow> r > 0.6) \<and>
          (fst (analyze_crowd_density prs frame_shape) = Crowded \<longleftrightarrow> 0.3 < r \<and> r \<le> 0.6) \<and>
          (fst (analyze_crowd_density prs frame_shape) = Moderate \<longleftrightarrow> 0.1 < r \<and> r \<le> 0.3) \<and>
          (fst (analyze_crowd_density prs frame_shape) = Sparse \<longleftrightarrow> r \<le> 0.1)"
    if "prs \<noteq> []"
    unfolding *[OF that] by auto
  then show ?thesis using e unfolding Let_def r_def by blast
qed

theorem analyze_crowd_density_buckets_witness:
  "[one_person (0, 0, 320, 240)] \<noteq> [] \<and> 0 < fst (480::nat, 640::nat) * snd (480::nat, 640::nat) \<and>
   analyze_crowd_density [one_person (0, 0, 320, 240)] (480, 640) = (Moderate, 1 / 4)"
  using analyze_crowd_density_buckets [of "(480, 640)" "[one_person (0, 0, 320, 240)]"]
  by (simp add: one_person_def calculate_bbox_area_def Let_def prod_eq_iff)

text \<open>The zero-detection case is not sparse.\<close>

theorem analyze_crowd_density_empty_counterexample:
  "fst (analyze_crowd_density [] (480, 640)) \<noteq> Sparse"
  by (simp add: analyze_crowd_density_def)

section \<open>SafetyMonitor: the two aspect-ratio buckets\<close>

lemma sort_boxes_buckets:
  "sort_boxes bs (prs, men, women) = (prs', men', women') \<Longrightarrow>
     length prs' = length prs + length (filter kept bs) \<and>
     length women' = length women + length (filter (\<lambda>b. kept b \<and> tall b) bs) \<and>
     length men' = length men + length (filter (\<lambda>b. kept b \<and> \<not> tall b) bs)"
proof (induction bs arbitrary: prs men women)
  case Nil
  then show ?case by simp
next
  case (Cons b bs)
  obtain f1 g1 f2 g2 where x: "xyxy b = (f1, g1, f2, g2)" by (cases "xyxy b") auto
  let ?q = "(py_int f1, py_int g1, py_int f2, py_int g2)"
  consider (skip) "\<not> kept b" | (a) "kept b" "tall b" | (b) "kept b" "\<not> tall b" by blast
  then show ?case
  proof cases
    case skip
    then have "sort_boxes (b # bs) (prs, men, women) = sort_boxes bs (prs, men, women)"
      by (auto simp: kept_def Let_def)
    with Cons show ?thesis using skip by simp
  next
    case a
    with x have "sort_boxes (b # bs) (prs, men, women) = sort_boxes bs (prs @ [?q], men, women @ [?q])"
      by (simp add: kept_def tall_def Let_def)
    with Cons.prems have "sort_boxes bs (prs @ [?q], men, women @ [?q]) = (prs', men', women')" by simp
    from Cons.IH[OF this] a show ?thesis by simp
  next
    case b
    with x have "sort_boxes (b # bs) (prs, men, women) = sort_boxes bs (prs @ [?q], men @ [?q], women)"
      by (simp add: kept_def tall_def Let_def)
    with Cons.prems have "sort_boxes bs (prs @ [?q], men @ [?q], women) = (prs', men', women')" by simp
    from Cons.IH[OF this] b show ?thesis by simp
  qed
qed

lemma sort_detections_buckets:
  "sort_detections ds (prs, men, women) = (prs', men', women') \<Longrightarrow>
     length prs' = length prs + length (filter kept (concat ds)) \<and>
     length women' = length women + length (filter (\<lambda>b. kept b \<and> tall b) (concat ds)) \<and>
     length men' = length men + length (filter (\<lambda>b. kept b \<and> \<not> tall b) (concat ds))"
proof (induction ds arbitrary: prs men women)
  case Nil
  then show ?case by simp
next
  case (Cons d ds)
  obtain p1 m1 w1 where s: "sort_boxes d (prs, men, women) = (p1, m1, w1)"
    by (cases "sort_boxes d (prs, men, women)") auto
  with Cons.prems have "sort_detections ds (p1, m1, w1) = (prs', men', women')" by simp
  from Cons.IH[OF this] sort_boxes_buckets[OF s] show ?case by simp
qed

lemma filter_split_length:
  "length (filter (\<lambda>b. P b \<and> Q b) xs) + length (filter (\<lambda>b. P b \<and> \<not> Q b) xs) = length (filter P xs)"
  by (induction xs) auto

text \<open>
  Claim C10. In \<^verbatim>\<open>analyze_scene\<close> the reported total is the number of boxes that pass the
  person-and-confidence filter; the first bucket (\<^verbatim>\<open>women\<close>) counts the kept boxes whose
  aspect value exceeds 2.2, the second (\<^verbatim>\<open>men\<close>) the other kept boxes; so the two bucket
  counts add up to the total.
\<close>

theorem analyze_scene_buckets:
  "total (analyze_scene fr ds) = length (filter kept (concat ds)) \<and>
   women_count (analyze_scene fr ds) = length (filter (\<lambda>b. kept b \<and> tall b) (concat ds)) \<and>
   men_count (analyze_scene fr ds) = length (filter (\<lambda>b. kept b \<and> \<not> tall b) (concat ds)) \<and>
   men_count (analyze_scene fr ds) + women_count (analyze_scene fr ds) = total (analyze_scene fr ds)"
proof -
  obtain p m w where s: "sort_detections ds ([], [], []) = (p, m, w)"
    by (cases "sort_detections ds ([], [], [])") auto
  from sort_detections_buckets[OF s] filter_split_length[of kept tall "concat ds"] show ?thesis
    by (simp add: analyze_scene_def s Let_def case_prod_beta)
qed

section \<open>Shared facts about the gates and the worker\<close>

lemma analyze_frame_severity_cases:
  "mc_severity (analyze_frame fr rs) \<in> {LOW, MEDIUM, HIGH, CRITICAL}"
  by (simp add: analyze_frame_def Let_def)

lemma rank_mc: "mc_severity (analyze_frame fr rs) \<in> set [CRITICAL, HIGH, MEDIUM] \<longleftrightarrow>
   severity_rank MEDIUM \<le> severity_rank (mc_severity (analyze_frame fr rs))"
  using analyze_frame_severity_cases[of fr rs]
  by (auto simp: severity_rank_def split: severity.splits)

lemma analyze_dark_lone: "mc_severity (analyze_frame dark_frame [[lone_box]]) = CRITICAL"
  by (simp add: analyze_frame_def dark_frame_def lone_box_def Let_def)

lemma send_alert_enhanced_posted:
  "fst (snd (send_alert_enhanced k a now oc m)) \<noteq> None \<longleftrightarrow>
     (case m k of None \<Rightarrow> True | Some t \<Rightarrow> now - t \<ge> 30) \<and> ea_severity a \<in> {CRITICAL, HIGH, MEDIUM}"
  by (auto simp: send_alert_enhanced_def alert_cooldown_def Let_def split: option.splits http_outcome.splits)

lemma send_alert_basic_posted:
  "fst (send_alert_basic k a now oc m) \<noteq> None \<longleftrightarrow>
     (case m k of None \<Rightarrow> True | Some t \<Rightarrow> now - t \<ge> 30) \<and> sm_severity a \<in> {HIGH, MAY_RISK, MEDIUM}"
  by (auto simp: send_alert_basic_def alert_cooldown_def Let_def split: option.splits http_outcome.splits)

lemma send_alert_enhanced_state:
  "snd (snd (send_alert_enhanced k a now oc m)) =
     (if fst (snd (send_alert_enhanced k a now oc m)) \<noteq> None \<and> oc = Status 200 then m(k \<mapsto> now) else m)"
  by (auto simp: send_alert_enhanced_def alert_cooldown_def Let_def split: option.splits http_outcome.splits)

lemma send_alert_basic_state:
  "snd (send_alert_basic k a now oc m) =
     (if fst (send_alert_basic k a now oc m) \<noteq> None \<and> oc = Status 200 then m(k \<mapsto> now) else m)"
  by (auto simp: send_alert_basic_def alert_cooldown_def Let_def split: option.splits http_outcome.splits)

lemma send_alert_enhanced_indep:
  "k' \<noteq> k \<Longrightarrow> fst (snd (send_alert_enhanced k a now oc (m(k' := v)))) = fst (snd (send_alert_enhanced k a now oc m))"
  by (auto simp: send_alert_enhanced_def Let_def split: option.splits http_outcome.splits)

lemma send_alert_basic_indep:
  "k' \<noteq> k \<Longrightarrow> fst (send_alert_basic k a now oc (m(k' := v))) = fst (send_alert_basic k a now oc m)"
  by (auto simp: send_alert_basic_def Let_def split: option.splits http_outcome.splits)

lemma process_frame_queue:
  "alert_queue (snd (process_frame cam cfg c (loc, mon))) \<noteq> alert_queue mon \<longleftrightarrow>
     mc_severity (analyze_frame (cap_frame c) (cap_results c)) \<in> {CRITICAL, HIGH, MEDIUM} \<and>
     cap_clock c - last_alert_time loc > 30"
  by (simp add: process_frame_def Let_def)

lemma step_frame_locals:
  "cam' \<noteq> cam \<Longrightarrow> sys_locals (step (Frame cam cfg c) s) cam' = sys_locals s cam'"
  by (simp split: prod.splits)

lemma step_dispatch_locals: "sys_locals (step (Dispatch oc) s) = sys_locals s"
  by (simp split: prod.splits)

lemma camera_worker_frame_cases:
  "camera_worker_frame cam cfg c (loc, mon) = (loc', mon') \<Longrightarrow>
     running mon' = running mon \<and>
     ((alert_queue mon' = alert_queue mon \<and> last_alert_time loc' = last_alert_time loc) \<or>
      (\<exists>a. alert_queue mon' = alert_queue mon @ [a] \<and> alert_time a = cap_clock c \<and>
            last_alert_time loc' = cap_clock c \<and> cap_clock c - last_alert_time loc > 30))"
  by (auto simp: camera_worker_frame_def process_frame_def Let_def split: if_splits)

lemma camera_worker_loop_spaced:
  "\<exists>new. alert_queue (snd (camera_worker_loop cam cfg cs (loc, mon))) = alert_queue mon @ new \<and>
         sorted_wrt (\<lambda>a b. alert_time b - alert_time a > 30) new \<and>
         list_all (\<lambda>a. alert_time a - last_alert_time loc > 30) new"
proof (induction cs arbitrary: loc mon)
  case Nil
  then show ?case by simp
next
  case (Cons c cs)
  show ?case
  proof (cases "running mon")
    case False
    then show ?thesis by simp
  next
    case True
    obtain loc1 mon1 where s: "camera_worker_frame cam cfg c (loc, mon) = (loc1, mon1)"
      by (cases "camera_worker_frame cam cfg c (loc, mon)") auto
    from Cons.IH[of loc1 mon1] obtain new1 where
      n1: "alert_queue (snd (camera_worker_loop cam cfg cs (loc1, mon1))) = alert_queue mon1 @ new1"
      and n2: "sorted_wrt (\<lambda>a b. alert_time b - alert_time a > 30) new1"
      and n3: "list_all (\<lambda>a. alert_time a - last_alert_time loc1 > 30) new1" by blast
    have loop: "camera_worker_loop cam cfg (c # cs) (loc, mon) = camera_worker_loop cam cfg cs (loc1, mon1)"
      using True s by simp
    from camera_worker_frame_cases[OF s]
    consider (same) "alert_queue mon1 = alert_queue mon" "last_alert_time loc1 = last_alert_time loc"
      | (enq) a where "alert_queue mon1 = alert_queue mon @ [a]" "alert_time a = cap_clock c"
          "last_alert_time loc1 = cap_clock c" "cap_clock c - last_alert_time loc > 30"
      by blast
    then show ?thesis
    proof cases
      case same
      with n1 n2 n3 loop show ?thesis by auto
    next
      case enq
      have "sorted_wrt (\<lambda>a b. alert_time b - alert_time a > 30) (a # new1)"
        using n2 n3 enq by (auto simp: list_all_iff)
      moreover have "list_all (\<lambda>a. alert_time a - last_alert_time loc > 30) (a # new1)"
        using n3 enq by (auto simp: list_all_iff)
      moreover have "alert_queue (snd (camera_worker_loop cam cfg (c # cs) (loc, mon))) = alert_queue mon @ (a # new1)"
        using loop n1 enq by simp
      ultimately show ?thesis by blast
    qed
  qed
qed

lemma alert_sender_iteration_running:
  "running (fst (alert_sender_iteration oc (mon, tr))) = running mon"
  by (simp add: alert_sender_iteration_def Let_def split: list.splits http_outcome.splits)

lemma alert_sender_iteration_stats:
  "camera_stats (fst (alert_sender_iteration oc (mon, tr))) = camera_stats mon"
  by (simp add: alert_sender_iteration_def Let_def split: list.splits http_outcome.splits)

lemma alert_sender_iteration_queue:
  "alert_queue (fst (alert_sender_iteration oc (mon, tr))) = drop 1 (alert_queue mon) \<and>
   posted (snd (alert_sender_iteration oc (mon, tr))) = posted tr @ take 1 (alert_queue mon)"
  by (simp add: alert_sender_iteration_def Let_def split: list.splits http_outcome.splits)

lemma alert_sender_iteration_printed:
  "\<exists>l. printed (snd (alert_sender_iteration oc (mon, tr))) = printed tr @ l \<and> length l \<le> 1 \<and>
       (oc \<noteq> Status 200 \<longrightarrow> AlertSent \<notin> set l)"
  by (auto simp: alert_sender_iteration_def handler_prints_def Let_def
      split: list.splits http_outcome.splits)

lemma alert_sender_iteration_failed:
  assumes "alert_queue mon = al # rest"
  shows "(c \<noteq> 200 \<longrightarrow>
            alert_sender_iteration (Status c) (mon, tr) =
              (mon\<lparr>alert_queue := rest\<rparr>,
               tr\<lparr>posted := posted tr @ [al], printed := printed tr @ [FailedStatus c]\<rparr>)) \<and>
         alert_sender_iteration (TransportError msg) (mon, tr) =
              (mon\<lparr>alert_queue := rest\<rparr>,
               tr\<lparr>posted := posted tr @ [al],
                  printed := printed tr @ (if str_contains ''Empty'' msg then [] else [SenderError])\<rparr>)"
  using assms by (simp add: alert_sender_iteration_def handler_prints_def Let_def)

lemma alert_sender_worker_drops:
  assumes "running mon"
  shows "\<exists>ls. (case alert_sender_worker os (mon, tr) of (mon', tr') \<Rightarrow>
           alert_queue mon' = drop (length os) (alert_queue mon) \<and>
           posted tr' = posted tr @ take (length os) (alert_queue mon) \<and>
           camera_stats mon' = camera_stats mon \<and>
           printed tr' = printed tr @ ls \<and> length ls \<le> length os \<and>
           (list_all (\<lambda>oc. oc \<noteq> Status 200) os \<longrightarrow> AlertSent \<notin> set ls))"
  using assms
proof (induction os arbitrary: mon tr)
  case Nil
  then show ?case by simp
next
  case (Cons oc os)
  obtain mon1 tr1 where s: "alert_sender_iteration oc (mon, tr) = (mon1, tr1)"
    by (cases "alert_sender_iteration oc (mon, tr)") auto
  have r1: "running mon1" using alert_sender_iteration_running[of oc mon tr] s Cons.prems by simp
  have st: "camera_stats mon1 = camera_stats mon" using alert_sender_iteration_stats[of oc mon tr] s by simp
  have q: "alert_queue mon1 = drop 1 (alert_queue mon)" "posted tr1 = posted tr @ take 1 (alert_queue mon)"
    using alert_sender_iteration_queue[of oc mon tr] s by simp_all
  obtain l where l: "printed tr1 = printed tr @ l" "length l \<le> 1" "oc \<noteq> Status 200 \<longrightarrow> AlertSent \<notin> set l"
    using alert_sender_iteration_printed[of oc mon tr] s by auto
  from Cons.IH[OF r1, of tr1] obtain ls mon' tr' where
    w: "alert_sender_worker os (mon1, tr1) = (mon', tr')" and
    ih: "alert_queue mon' = drop (length os) (alert_queue mon1)"
        "posted tr' = posted tr1 @ take (length os) (alert_queue mon1)"
        "camera_stats mon' = camera_stats mon1"
        "printed tr' = printed tr1 @ ls" "length ls \<le> length os"
        "list_all (\<lambda>oc. oc \<noteq> Status 200) os \<longrightarrow> AlertSent \<notin> set ls"
    by (cases "alert_sender_worker os (mon1, tr1)") auto
  have loop: "alert_sender_worker (oc # os) (mon, tr) = (mon', tr')"
    using Cons.prems s w by simp
  have t: "take (Suc 0) xs @ take n (drop (Suc 0) xs) = take (Suc n) xs" for xs :: "alert_data list" and n
    by (cases xs) auto
  show ?case
    unfolding loop
    apply (rule exI[of _ "l @ ls"])
    using ih q st l by (auto simp: t)
qed

lemma sqrt_million: "sqrt 1000000 = 1000"
  using real_sqrt_abs [of 1000] by simp


lemma idle_frames:
  "k < 30 \<Longrightarrow> run (replicate k (Frame cam cfg c)) initial_system =
     initial_system\<lparr>sys_monitor := (sys_monitor initial_system)
        \<lparr>camera_stats := (camera_stats (sys_monitor initial_system))
           (cam := \<lparr>frames_processed = k, alerts_sent = 0, last_alert = None, status = Running\<rparr>)\<rparr>,
        sys_locals := (sys_locals initial_system)(cam := \<lparr>frame_count = k, last_alert_time = 0\<rparr>)\<rparr>"
proof (induction k)
  case 0
  show ?case by (simp add: run_def initial_system_def fun_eq_iff)
next
  case (Suc k)
  then have k: "k < 30" and m: "Suc k mod 30 \<noteq> 0" by auto
  have "run (replicate (Suc k) (Frame cam cfg c)) initial_system =
        step (Frame cam cfg c) (run (replicate k (Frame cam cfg c)) initial_system)"
    by (simp add: run_def replicate_append_same [symmetric] del: replicate.simps)
  also have "\<dots> = initial_system\<lparr>sys_monitor := (sys_monitor initial_system)
        \<lparr>camera_stats := (camera_stats (sys_monitor initial_system))
           (cam := \<lparr>frames_processed = Suc k, alerts_sent = 0, last_alert = None, status = Running\<rparr>)\<rparr>,
        sys_locals := (sys_locals initial_system)(cam := \<lparr>frame_count = Suc k, last_alert_time = 0\<rparr>)\<rparr>"
    unfolding Suc.IH[OF k] using m
    by (simp add: camera_worker_frame_def Let_def initial_system_def)
  finally show ?case .
qed

section \<open>Shared facts about scene analysis\<close>

lemma extract_boxes_persons:
  "map pbbox (fst (extract_boxes now i bs (prs, tr))) = map pbbox prs @ map xyxy (filter kept bs)"
proof (induction bs arbitrary: i prs tr)
  case Nil
  then show ?case by simp
next
  case (Cons b bs)
  show ?case
  proof (cases "kept b")
    case True
    obtain b0 b1 b2 b3 where x: "xyxy b = (b0, b1, b2, b3)" by (cases "xyxy b") auto
    from True x show ?thesis
      by (simp add: kept_def Let_def Cons.IH)
  next
    case False
    then show ?thesis by (auto simp: kept_def Cons.IH)
  qed
qed

lemma extract_persons_persons:
  "map pbbox (fst (extract_persons now ds (prs, tr))) = map pbbox prs @ map xyxy (filter kept (concat ds))"
proof (induction ds arbitrary: prs tr)
  case Nil
  then show ?case by simp
next
  case (Cons d ds)
  obtain p1 t1 where s: "extract_boxes now 0 d (prs, tr) = (p1, t1)"
    by (cases "extract_boxes now 0 d (prs, tr)") auto
  have "map pbbox p1 = map pbbox prs @ map xyxy (filter kept d)"
    using extract_boxes_persons[of now 0 d prs tr] s by simp
  then show ?case using Cons.IH[of p1 t1] s by simp
qed

lemma extract_persons_length:
  "length (fst (extract_persons now ds ([], tr))) = length (filter kept (concat ds))"
  using arg_cong[OF extract_persons_persons[of now ds "[]" tr], of length] by simp

lemma analyze_scene_advanced_rule:
  assumes "analyze_scene_advanced fr ds k now tr0 = Inr (a, tr')"
  shows "ea_severity a = rule_severity
           (spec_rule (length (filter kept (concat ds))) (mean_gray fr)
              (detect_loitering (fst (lookup_track (snd (extract_persons now ds ([], tr0))) 0)) now)
              (list_ex (\<lambda>b. is_in_risk_zone (xyxy b) k) (filter kept (concat ds)))
              (speed_signal (fst (lookup_track (snd (extract_persons now ds ([], tr0))) 0)))
              (fst (analyze_crowd_density (fst (extract_persons now ds ([], tr0))) (shape fr)))) \<and>
         ea_alert_type a = rule_alert_type
           (spec_rule (length (filter kept (concat ds))) (mean_gray fr)
              (detect_loitering (fst (lookup_track (snd (extract_persons now ds ([], tr0))) 0)) now)
              (list_ex (\<lambda>b. is_in_risk_zone (xyxy b) k) (filter kept (concat ds)))
              (speed_signal (fst (lookup_track (snd (extract_persons now ds ([], tr0))) 0)))
              (fst (analyze_crowd_density (fst (extract_persons now ds ([], tr0))) (shape fr))))"
proof -
  obtain prs tr1 where e: "extract_persons now ds ([], tr0) = (prs, tr1)"
    by (cases "extract_persons now ds ([], tr0)") auto
  have n: "length prs = length (filter kept (concat ds))"
    using extract_persons_length[of now ds tr0] e by simp
  have z: "list_ex (\<lambda>p. is_in_risk_zone (pbbox p) k) prs = list_ex (\<lambda>b. is_in_risk_zone (xyxy b) k) (filter kept (concat ds))"
  proof -
    have "list_ex (\<lambda>p. is_in_risk_zone (pbbox p) k) prs = list_ex (\<lambda>b. is_in_risk_zone b k) (map pbbox prs)"
      by (simp add: list_ex_iff)
    also have "map pbbox prs = map xyxy (filter kept (concat ds))"
      using extract_persons_persons[of now ds "[]" tr0] e by simp
    finally show ?thesis by (simp add: list_ex_iff)
  qed
  obtain t0 tr2 where l: "lookup_track tr1 0 = (t0, tr2)" by (cases "lookup_track tr1 0") auto
  obtain crowd density where c: "analyze_crowd_density prs (shape fr) = (crowd, density)"
    by (cases "analyze_crowd_density prs (shape fr)") auto
  have lt: "fst (lookup_track tr1 0) = t0" using l by simp
  have cr: "fst (analyze_crowd_density prs (shape fr)) = crowd" using c by simp
  have ep: "fst (extract_persons now ds ([], tr0)) = prs" "snd (extract_persons now ds ([], tr0)) = tr1"
    using e by simp_all
  note defs = analyze_scene_advanced_def e l c Let_def spec_rule_def rule_severity_def
    rule_alert_type_def speed_signal_def detect_running_def
  let ?r = "spec_rule (length prs) (mean_gray fr) (detect_loitering t0 now)
              (list_ex (\<lambda>p. is_in_risk_zone (pbbox p) k) prs) (speed_signal t0) crowd"
  consider (r1) "length prs = 1" "mean_gray fr < 50"
    | (r23) "length prs = 1" "\<not> mean_gray fr < 50" "mean_gray fr < 80"
    | (r456) "length prs = 2"
    | (r78) "length prs = 1" "\<not> mean_gray fr < 80"
    | (r9) "length prs \<noteq> 1" "length prs \<noteq> 2"
    by fastforce
  then have main: "ea_severity a = rule_severity ?r \<and> ea_alert_type a = rule_alert_type ?r"
  proof cases
    case r1
    with assms show ?thesis by (auto simp: defs)
  next
    case r23
    with assms show ?thesis by (auto simp: defs split: if_splits)
  next
    case r456
    with assms show ?thesis by (auto simp: defs split: if_splits)
  next
    case r78
    with assms show ?thesis by (auto simp: defs split: if_splits sum.splits)
  next
    case r9
    with assms show ?thesis by (auto simp: defs split: if_splits)
  qed
  show ?thesis unfolding ep lt cr using main n z by simp
qed

lemma extract_persons_areas:
  "(\<Sum>p\<leftarrow>fst (extract_persons now ds ([], tr)). calculate_bbox_area (pbbox p)) =
   (\<Sum>b\<leftarrow>filter kept (concat ds). calculate_bbox_area (xyxy b))"
proof -
  have "map (\<lambda>p. calculate_bbox_area (pbbox p)) (fst (extract_persons now ds ([], tr)))
      = map calculate_bbox_area (map pbbox (fst (extract_persons now ds ([], tr))))" by simp
  also have "\<dots> = map calculate_bbox_area (map xyxy (filter kept (concat ds)))"
    unfolding extract_persons_persons by simp
  finally show ?thesis by (simp add: comp_def)
qed

lemma rule1_wins:
  assumes "length (filter kept (concat ds)) = 1" and "mean_gray fr < 50"
  shows "\<exists>a tr'. analyze_scene_advanced fr ds k now tr0 = Inr (a, tr') \<and>
           ea_severity a = CRITICAL \<and> ea_alert_type a = ''Lone Woman - Very Dark Area''"
proof -
  obtain prs tr1 where e: "extract_persons now ds ([], tr0) = (prs, tr1)"
    by (cases "extract_persons now ds ([], tr0)") auto
  have n: "length prs = 1"
    using extract_persons_length[of now ds tr0] e assms(1) by simp
  show ?thesis using n assms(2)
    by (simp add: analyze_scene_advanced_def e Let_def case_prod_beta)
qed

lemma two_persons_well_lit:
  assumes "length (filter kept (concat ds)) = 2" and "\<not> mean_gray fr < 80"
  shows "\<exists>a tr'. analyze_scene_advanced fr ds k now tr0 = Inr (a, tr') \<and>
           ea_severity a = MEDIUM \<and> ea_alert_type a = ''Two Persons Detected''"
proof -
  obtain prs tr1 where e: "extract_persons now ds ([], tr0) = (prs, tr1)"
    by (cases "extract_persons now ds ([], tr0)") auto
  have n: "length prs = 2"
    using extract_persons_length[of now ds tr0] e assms(1) by simp
  show ?thesis using n assms(2)
    by (simp add: analyze_scene_advanced_def e Let_def case_prod_beta)
qed

lemma several_persons_low:
  assumes "length (filter kept (concat ds)) \<ge> 3"
    and "0 < fst (shape fr) * snd (shape fr)"
    and "(\<Sum>b\<leftarrow>filter kept (concat ds). calculate_bbox_area (xyxy b)) / real (fst (shape fr) * snd (shape fr)) \<le> 0.6"
  shows "\<exists>a tr'. analyze_scene_advanced fr ds k now tr0 = Inr (a, tr') \<and>
           ea_severity a = LOW \<and> ea_alert_type a = ''Multiple Persons''"
proof -
  obtain prs tr1 where e: "extract_persons now ds ([], tr0) = (prs, tr1)"
    by (cases "extract_persons now ds ([], tr0)") auto
  have n: "length prs = length (filter kept (concat ds))"
    using extract_persons_length[of now ds tr0] e by simp
  have ar: "(\<Sum>p\<leftarrow>prs. calculate_bbox_area (pbbox p)) = (\<Sum>b\<leftarrow>filter kept (concat ds). calculate_bbox_area (xyxy b))"
    using extract_persons_areas[of now ds tr0] e by simp
  have ne: "prs \<noteq> []" using n assms(1) by auto
  have "fst (analyze_crowd_density prs (shape fr)) \<noteq> VeryCrowded"
    using assms(3) unfolding analyze_crowd_density_ratio[OF ne, of "shape fr"] ar Let_def
    by auto
  then show ?thesis using n assms(1)
    by (simp add: analyze_scene_advanced_def e Let_def case_prod_beta)
qed

lemma analyze_frame_table:
  "mc_severity (analyze_frame fr rs) =
     (let n = length (filter kept (concat rs)); b = mean_gray fr
      in if n = 1 \<and> b < 50 then CRITICAL
         else if n = 1 \<and> b < 80 then HIGH
         else if n = 2 \<and> b < 80 then HIGH
         else if n = 1 then MEDIUM
         else LOW)"
  by (simp add: analyze_frame_def Let_def kept_def [abs_def])

lemma deque_append_length:
  "length xs = length ys \<Longrightarrow> length (deque_append xs x) = length (deque_append ys y)"
  by (simp add: deque_append_def)

lemma lookup_track_wf:
  "tracks_wf tr \<Longrightarrow> track_wf (fst (lookup_track tr i)) \<and> tracks_wf (snd (lookup_track tr i))"
  unfolding tracks_wf_def lookup_track_def
  by (auto simp: track_wf_def default_track_def split: option.splits dest: spec[of _ i])

lemma update_tracking_wf:
  assumes "tracks_wf tr"
  shows "tracks_wf (update_tracking tr i c now)"
proof -
  obtain t tr1 where l: "lookup_track tr i = (t, tr1)" by (cases "lookup_track tr i") auto
  from lookup_track_wf[OF assms, of i] l have w: "track_wf t" "tracks_wf tr1" by simp_all
  show ?thesis
    using w deque_append_length[of "positions t" "timestamps t" c now]
    unfolding update_tracking_def l tracks_wf_def
    by (auto simp: track_wf_def Let_def split: option.splits)
qed

lemma extract_boxes_wf:
  "tracks_wf tr \<Longrightarrow> tracks_wf (snd (extract_boxes now i bs (prs, tr)))"
proof (induction bs arbitrary: i prs tr)
  case Nil
  then show ?case by simp
next
  case (Cons b bs)
  obtain b0 b1 b2 b3 where x: "xyxy b = (b0, b1, b2, b3)" by (cases "xyxy b") auto
  show ?case
    using Cons.prems x by (auto simp: Let_def intro!: Cons.IH update_tracking_wf)
qed

lemma extract_persons_wf:
  "tracks_wf tr \<Longrightarrow> tracks_wf (snd (extract_persons now ds (prs, tr)))"
proof (induction ds arbitrary: prs tr)
  case Nil
  then show ?case by simp
next
  case (Cons d ds)
  obtain p1 t1 where s: "extract_boxes now 0 d (prs, tr) = (p1, t1)"
    by (cases "extract_boxes now 0 d (prs, tr)") auto
  have "tracks_wf t1" using extract_boxes_wf[OF Cons.prems, of now 0 d prs] s by simp
  from Cons.IH[OF this, of p1] show ?case using s by simp
qed

lemma calculate_speed_wf: "track_wf t \<Longrightarrow> \<exists>v. calculate_speed (positions t) (timestamps t) = Inr v"
  by (auto simp: calculate_speed_def track_wf_def Let_def)

lemma analyze_scene_advanced_returns:
  assumes "tracks_wf tr0"
  shows "\<exists>a tr'. analyze_scene_advanced fr ds k now tr0 = Inr (a, tr') \<and> tracks_wf tr'"
proof -
  obtain prs tr1 where e: "extract_persons now ds ([], tr0) = (prs, tr1)"
    by (cases "extract_persons now ds ([], tr0)") auto
  have w1: "tracks_wf tr1" using extract_persons_wf[OF assms, of now ds "[]"] e by simp
  obtain t0 tr2 where l: "lookup_track tr1 0 = (t0, tr2)" by (cases "lookup_track tr1 0") auto
  have w2: "track_wf t0" "tracks_wf tr2" using lookup_track_wf[OF w1, of 0] l by simp_all
  obtain v where v: "calculate_speed (positions t0) (timestamps t0) = Inr v"
    using calculate_speed_wf[OF w2(1)] by blast
  show ?thesis
    using w1 w2(2)
    by (simp add: analyze_scene_advanced_def e l v Let_def case_prod_beta)
qed

section \<open>The alert threshold\<close>

lemma analyze_scene_severity:
  "sm_severity (analyze_scene fr ds) =
     (let w = length (filter (\<lambda>b. kept b \<and> tall b) (concat ds));
          m = length (filter (\<lambda>b. kept b \<and> \<not> tall b) (concat ds));
          d = mean_gray fr < 70
      in if w = 1 \<and> m = 0 \<and> d then HIGH
         else if w = 1 \<and> m \<ge> 2 then MAY_RISK
         else if 1 \<le> w \<and> w \<le> 2 \<and> m \<ge> 3 then MAY_RISK
         else if w = 1 \<and> \<not> d then MEDIUM
         else LOW)"
proof -
  obtain p m w where s: "sort_detections ds ([], [], []) = (p, m, w)"
    by (cases "sort_detections ds ([], [], [])") auto
  from sort_detections_buckets[OF s]
  have w: "length (filter (\<lambda>b. kept b \<and> tall b) (concat ds)) = length w"
    and m: "length (filter (\<lambda>b. kept b \<and> \<not> tall b) (concat ds)) = length m" by simp_all
  show ?thesis unfolding w m
    by (simp add: analyze_scene_def s Let_def case_prod_beta)
qed

lemma rule_severity_not_may_risk: "rule_severity r \<noteq> MAY_RISK"
  by (simp add: rule_severity_def)

lemma enhanced_rank:
  assumes "analyze_scene_advanced fr ds k t tr0 = Inr (a, tr')"
  shows "ea_severity a \<in> {CRITICAL, HIGH, MEDIUM} \<longleftrightarrow> severity_rank MEDIUM \<le> severity_rank (ea_severity a)"
proof -
  have "ea_severity a \<noteq> MAY_RISK"
    using analyze_scene_advanced_rule[OF assms] rule_severity_not_may_risk by simp
  then show ?thesis by (cases "ea_severity a") (simp_all add: severity_rank_def)
qed

lemma basic_rank:
  "sm_severity (analyze_scene fr ds) \<in> {HIGH, MAY_RISK, MEDIUM} \<longleftrightarrow>
     severity_rank MEDIUM \<le> severity_rank (sm_severity (analyze_scene fr ds))"
proof -
  have "sm_severity (analyze_scene fr ds) \<noteq> CRITICAL"
    by (simp add: analyze_scene_severity Let_def)
  then show ?thesis by (cases "sm_severity (analyze_scene fr ds)") (simp_all add: severity_rank_def)
qed

lemma send_alert_enhanced_result:
  "send_alert_enhanced k a now oc m =
     (if (case m k of None \<Rightarrow> True | Some t \<Rightarrow> now - t \<ge> 30) \<and> ea_severity a \<in> {CRITICAL, HIGH, MEDIUM}
      then (oc = Status 200,
            Some \<lparr>place = loc_name (get_location k), alert_kind = ea_alert_type a,
                  alert_severity = ea_severity a, alert_lat = lat (get_location k),
                  alert_lng = lng (get_location k), alert_time = now,
                  lighting = (if ea_brightness a < 50 then ''Very Dark''
                              else if ea_is_dark a then ''Dark'' else ''Well-lit'')\<rparr>,
            if oc = Status 200 then m(k \<mapsto> now) else m)
      else (False, None, m))"
  by (auto simp: send_alert_enhanced_def alert_cooldown_def Let_def
      split: option.splits http_outcome.splits)

lemma send_alert_basic_result:
  "send_alert_basic k b now oc m =
     (if (case m k of None \<Rightarrow> True | Some t \<Rightarrow> now - t \<ge> 30) \<and> sm_severity b \<in> {HIGH, MAY_RISK, MEDIUM}
      then (Some \<lparr>place = loc_name ((case camera_locations_basic k of
                           Some l \<Rightarrow> l
                         | None \<Rightarrow> \<lparr>loc_name = ''Park Street Entrance'', lat = 11.1085,
                                     lng = 77.3411, risk_zones = []\<rparr>)), alert_kind = sm_alert_type b,
                  alert_severity = sm_severity b, alert_lat = lat ((case camera_locations_basic k of
                           Some l \<Rightarrow> l
                         | None \<Rightarrow> \<lparr>loc_name = ''Park Street Entrance'', lat = 11.1085,
                                     lng = 77.3411, risk_zones = []\<rparr>)), alert_lng = lng ((case camera_locations_basic k of
                           Some l \<Rightarrow> l
                         | None \<Rightarrow> \<lparr>loc_name = ''Park Street Entrance'', lat = 11.1085,
                                     lng = 77.3411, risk_zones = []\<rparr>)),
                  alert_time = now, lighting = (if sm_is_dark b then ''Dark'' else ''Well-lit'')\<rparr>,
            if oc = Status 200 then m(k \<mapsto> now) else m)
      else (None, m))"
  by (auto simp: send_alert_basic_def alert_cooldown_def Let_def
      split: option.splits http_outcome.splits)

text \<open>
  Claim C8, as the code has it. On every frame that the feed worker \<^verbatim>\<open>camera_worker\<close>
  analyses, the worker appends one AlertEvent to the queue, sets its cooldown timestamp to
  the clock reading and increments the feed's counter, if the severity assessed by
  \<^verbatim>\<open>analyze_frame\<close> is MEDIUM or above in the specification's order and the gate permits
  (more than 30 since the last permitted alert); otherwise it changes nothing. A LOW frame
  never produces an AlertEvent. The single-camera monitors, for every analysis their own
  scene analysis returns, build and post an alert exactly when the severity is MEDIUM or
  above and their gate does not block; they record the permit only when, in addition, the
  POST is answered with status 200.
\<close>

theorem alert_iff_medium_or_above_and_permitted:
  "process_frame cam cfg c (loc, mon) =
     (if severity_rank MEDIUM \<le> severity_rank (mc_severity (analyze_frame (cap_frame c) (cap_results c)))
         \<and> cap_clock c - last_alert_time loc > 30
      then (loc\<lparr>last_alert_time := cap_clock c\<rparr>,
            mon\<lparr>alert_queue := alert_queue mon @
                   [\<lparr>place = cfg_name cfg,
                     alert_kind = mc_alert_type (analyze_frame (cap_frame c) (cap_results c)),
                     alert_severity = mc_severity (analyze_frame (cap_frame c) (cap_results c)),
                     alert_lat = cfg_lat cfg, alert_lng = cfg_lng cfg, alert_time = cap_clock c,
                     lighting = (if mc_is_dark (analyze_frame (cap_frame c) (cap_results c))
                                 then ''Dark'' else ''Well-lit'')\<rparr>],
                camera_stats := (camera_stats mon)
                  (cam := (camera_stats mon cam)\<lparr>alerts_sent := alerts_sent (camera_stats mon cam) + 1,
                                                last_alert := Some (cap_clock c)\<rparr>)\<rparr>)
      else (loc, mon)) \<and>
   (mc_severity (analyze_frame (cap_frame c) (cap_results c)) = LOW \<longrightarrow>
      process_frame cam cfg c (loc, mon) = (loc, mon)) \<and>
   (fst (send_alert_basic k (analyze_scene fr ds) now oc m) \<noteq> None \<longleftrightarrow>
      severity_rank MEDIUM \<le> severity_rank (sm_severity (analyze_scene fr ds)) \<and>
      (case m k of None \<Rightarrow> True | Some t \<Rightarrow> now - t \<ge> 30)) \<and>
   (analyze_scene_advanced fr ds k t0 tr0 = Inr (a, tr') \<longrightarrow>
      (fst (snd (send_alert_enhanced k a now oc m)) \<noteq> None \<longleftrightarrow>
         severity_rank MEDIUM \<le> severity_rank (ea_severity a) \<and>
         (case m k of None \<Rightarrow> True | Some t \<Rightarrow> now - t \<ge> 30))) \<and>
   send_alert_basic k (analyze_scene fr ds) now oc m =
     (if severity_rank MEDIUM \<le> severity_rank (sm_severity (analyze_scene fr ds)) \<and>
         (case m k of None \<Rightarrow> True | Some t \<Rightarrow> now - t \<ge> 30)
      then (Some \<lparr>place = loc_name ((case camera_locations_basic k of
                           Some l \<Rightarrow> l
                         | None \<Rightarrow> \<lparr>loc_name = ''Park Street Entrance'', lat = 11.1085,
                                     lng = 77.3411, risk_zones = []\<rparr>)), alert_kind = sm_alert_type (analyze_scene fr ds),
                  alert_severity = sm_severity (analyze_scene fr ds), alert_lat = lat ((case camera_locations_basic k of
                           Some l \<Rightarrow> l
                         | None \<Rightarrow> \<lparr>loc_name = ''Park Street Entrance'', lat = 11.1085,
                                     lng = 77.3411, risk_zones = []\<rparr>)), alert_lng = lng ((case camera_locations_basic k of
                           Some l \<Rightarrow> l
                         | None \<Rightarrow> \<lparr>loc_name = ''Park Street Entrance'', lat = 11.1085,
                                     lng = 77.3411, risk_zones = []\<rparr>)),
                  alert_time = now, lighting = (if sm_is_dark (analyze_scene fr ds) then ''Dark'' else ''Well-lit'')\<rparr>,
            if oc = Status 200 then m(k \<mapsto> now) else m)
      else (None, m)) \<and>
   (analyze_scene_advanced fr ds k t0 tr0 = Inr (a, tr') \<longrightarrow>
      send_alert_enhanced k a now oc m =
        (if severity_rank MEDIUM \<le> severity_rank (ea_severity a) \<and>
            (case m k of None \<Rightarrow> True | Some t \<Rightarrow> now - t \<ge> 30)
         then (oc = Status 200,
               Some \<lparr>place = loc_name (get_location k), alert_kind = ea_alert_type a,
                  alert_severity = ea_severity a, alert_lat = lat (get_location k),
                  alert_lng = lng (get_location k), alert_time = now,
                  lighting = (if ea_brightness a < 50 then ''Very Dark''
                              else if ea_is_dark a then ''Dark'' else ''Well-lit'')\<rparr>,
               if oc = Status 200 then m(k \<mapsto> now) else m)
         else (False, None, m)))"
proof -
  have 1: "process_frame cam cfg c (loc, mon) =
     (if severity_rank MEDIUM \<le> severity_rank (mc_severity (analyze_frame (cap_frame c) (cap_results c)))
         \<and> cap_clock c - last_alert_time loc > 30
      then (loc\<lparr>last_alert_time := cap_clock c\<rparr>,
            mon\<lparr>alert_queue := alert_queue mon @
                   [\<lparr>place = cfg_name cfg,
                     alert_kind = mc_alert_type (analyze_frame (cap_frame c) (cap_results c)),
                     alert_severity = mc_severity (analyze_frame (cap_frame c) (cap_results c)),
                     alert_lat = cfg_lat cfg, alert_lng = cfg_lng cfg, alert_time = cap_clock c,
                     lighting = (if mc_is_dark (analyze_frame (cap_frame c) (cap_results c))
                                 then ''Dark'' else ''Well-lit'')\<rparr>],
                camera_stats := (camera_stats mon)
                  (cam := (camera_stats mon cam)\<lparr>alerts_sent := alerts_sent (camera_stats mon cam) + 1,
                                                last_alert := Some (cap_clock c)\<rparr>)\<rparr>)
      else (loc, mon))"
    unfolding rank_mc[symmetric] by (simp add: process_frame_def Let_def)
  have 2: "mc_severity (analyze_frame (cap_frame c) (cap_results c)) = LOW \<longrightarrow>
      process_frame cam cfg c (loc, mon) = (loc, mon)"
    by (simp add: process_frame_def Let_def)
  have 3: "fst (send_alert_basic k (analyze_scene fr ds) now oc m) \<noteq> None \<longleftrightarrow>
      severity_rank MEDIUM \<le> severity_rank (sm_severity (analyze_scene fr ds)) \<and>
      (case m k of None \<Rightarrow> True | Some t \<Rightarrow> now - t \<ge> 30)"
    unfolding send_alert_basic_posted basic_rank by auto
  have 4: "analyze_scene_advanced fr ds k t0 tr0 = Inr (a, tr') \<longrightarrow>
      (fst (snd (send_alert_enhanced k a now oc m)) \<noteq> None \<longleftrightarrow>
         severity_rank MEDIUM \<le> severity_rank (ea_severity a) \<and>
         (case m k of None \<Rightarrow> True | Some t \<Rightarrow> now - t \<ge> 30))"
    unfolding send_alert_enhanced_posted using enhanced_rank by auto
  have 5: "send_alert_basic k (analyze_scene fr ds) now oc m =
     (if severity_rank MEDIUM \<le> severity_rank (sm_severity (analyze_scene fr ds)) \<and>
         (case m k of None \<Rightarrow> True | Some t \<Rightarrow> now - t \<ge> 30)
      then (Some \<lparr>place = loc_name ((case camera_locations_basic k of
                           Some l \<Rightarrow> l
                         | None \<Rightarrow> \<lparr>loc_name = ''Park Street Entrance'', lat = 11.1085,
                                     lng = 77.3411, risk_zones = []\<rparr>)), alert_kind = sm_alert_type (analyze_scene fr ds),
                  alert_severity = sm_severity (analyze_scene fr ds), alert_lat = lat ((case camera_locations_basic k of
                           Some l \<Rightarrow> l
                         | None \<Rightarrow> \<lparr>loc_name = ''Park Street Entrance'', lat = 11.1085,
                                     lng = 77.3411, risk_zones = []\<rparr>)), alert_lng = lng ((case camera_locations_basic k of
                           Some l \<Rightarrow> l
                         | None \<Rightarrow> \<lparr>loc_name = ''Park Street Entrance'', lat = 11.1085,
                                     lng = 77.3411, risk_zones = []\<rparr>)),
                  alert_time = now, lighting = (if sm_is_dark (analyze_scene fr ds) then ''Dark'' else ''Well-lit'')\<rparr>,
            if oc = Status 200 then m(k \<mapsto> now) else m)
      else (None, m))"
    unfolding send_alert_basic_result basic_rank by auto
  have 6: "(analyze_scene_advanced fr ds k t0 tr0 = Inr (a, tr') \<longrightarrow>
      send_alert_enhanced k a now oc m =
        (if severity_rank MEDIUM \<le> severity_rank (ea_severity a) \<and>
            (case m k of None \<Rightarrow> True | Some t \<Rightarrow> now - t \<ge> 30)
         then (oc = Status 200,
               Some \<lparr>place = loc_name (get_location k), alert_kind = ea_alert_type a,
                  alert_severity = ea_severity a, alert_lat = lat (get_location k),
                  alert_lng = lng (get_location k), alert_time = now,
                  lighting = (if ea_brightness a < 50 then ''Very Dark''
                              else if ea_is_dark a then ''Dark'' else ''Well-lit'')\<rparr>,
               if oc = Status 200 then m(k \<mapsto> now) else m)
         else (False, None, m)))"
    unfolding send_alert_enhanced_result using enhanced_rank by auto
  from 1 2 3 4 5 6 show ?thesis by (intro conjI)
qed

lemma dark_call:
  "analyze_scene_advanced dark_frame [[lone_box]] (CamInt 0) t Map.empty =
     Inr (\<lparr>ea_person_count = 1, ea_severity = CRITICAL, ea_alert_type = ''Lone Woman - Very Dark Area'',
           ea_brightness = 30, ea_is_dark = True, ea_crowd_level = Sparse,
           ea_crowd_density = 30000 / 307200,
           ea_risk_factors = [''Very poor lighting'', ''Isolated individual''],
           ea_persons = [\<lparr>pid = 0, pbbox = (100, 100, 200, 400), center = (150, 250), confidence = 0.9\<rparr>]\<rparr>,
          [0 \<mapsto> \<lparr>positions = [(150, 250)], timestamps = [t], first_seen = Some t, last_alerted = None\<rparr>])"
  by (simp add: analyze_scene_advanced_def dark_frame_def lone_box_def update_tracking_def
      lookup_track_def default_track_def deque_append_def analyze_crowd_density_def
      calculate_bbox_area_def Let_def)

theorem alert_iff_medium_or_above_and_permitted_witness:
  "mc_severity (analyze_frame (cap_frame (capture_at 1000)) (cap_results (capture_at 1000))) = CRITICAL \<and>
   alert_queue (snd (process_frame ''cam1'' cam1_config (capture_at 1000)
       (\<lparr>frame_count = 30, last_alert_time = 0\<rparr>, sys_monitor initial_system))) =
     [queued_alert 1000] \<and>
   last_alert_time (fst (process_frame ''cam1'' cam1_config (capture_at 1000)
       (\<lparr>frame_count = 30, last_alert_time = 0\<rparr>, sys_monitor initial_system))) = 1000 \<and>
   (\<exists>a tr'. analyze_scene_advanced dark_frame [[lone_box]] (CamInt 0) 1000 Map.empty = Inr (a, tr') \<and>
      fst (snd (send_alert_enhanced (CamInt 0) a 1000 (Status 200) Map.empty)) \<noteq> None \<and>
      snd (snd (send_alert_enhanced (CamInt 0) a 1000 (Status 200) Map.empty)) (CamInt 0) = Some 1000)"
proof -
  have a: "mc_severity (analyze_frame (cap_frame (capture_at 1000)) (cap_results (capture_at 1000))) = CRITICAL"
    by (simp add: capture_at_def analyze_dark_lone)
  have b: "analyze_frame dark_frame [[lone_box]] =
     \<lparr>mc_person_count = 1, mc_severity = CRITICAL, mc_alert_type = ''Lone Woman - Very Dark Area'',
      mc_brightness = 30, mc_is_dark = True, mc_persons = [\<lparr>mc_bbox = (100, 100, 200, 400), mc_confidence = 0.9\<rparr>]\<rparr>"
    by (simp add: analyze_frame_def dark_frame_def lone_box_def Let_def)
  note t = alert_iff_medium_or_above_and_permitted[where cam = "''cam1''" and cfg = cam1_config
      and c = "capture_at 1000" and loc = "\<lparr>frame_count = 30, last_alert_time = 0\<rparr>"
      and mon = "sys_monitor initial_system" and fr = dark_frame and ds = "[[lone_box]]"
      and k = "CamInt 0" and ?t0.0 = 1000 and ?tr0.0 = Map.empty and now = 1000 and oc = "Status 200"
      and m = Map.empty]
  have p: "process_frame ''cam1'' cam1_config (capture_at 1000)
       (\<lparr>frame_count = 30, last_alert_time = 0\<rparr>, sys_monitor initial_system) =
     (\<lparr>frame_count = 30, last_alert_time = 1000\<rparr>,
      (sys_monitor initial_system)\<lparr>alert_queue := [queued_alert 1000],
         camera_stats := (camera_stats (sys_monitor initial_system))
           (''cam1'' := \<lparr>frames_processed = 0, alerts_sent = 1, last_alert = Some 1000, status = Running\<rparr>)\<rparr>)"
    unfolding t[THEN conjunct1]
    by (simp add: capture_at_def b severity_rank_def cam1_config_def queued_alert_def initial_system_def)
  have e: "\<exists>a tr'. analyze_scene_advanced dark_frame [[lone_box]] (CamInt 0) 1000 Map.empty = Inr (a, tr') \<and>
      fst (snd (send_alert_enhanced (CamInt 0) a 1000 (Status 200) Map.empty)) \<noteq> None \<and>
      snd (snd (send_alert_enhanced (CamInt 0) a 1000 (Status 200) Map.empty)) (CamInt 0) = Some 1000"
    using t[THEN conjunct2, THEN conjunct2, THEN conjunct2, THEN conjunct2, THEN conjunct2] dark_call[of 1000]
    by (simp add: severity_rank_def)
  show ?thesis using a p e by simp
qed

text \<open>The enhanced monitor on one person in a very dark frame, no entry in the table, the
  endpoint answering 500: the severity is CRITICAL and the gate permits, the alert is built
  and posted, and no permit is recorded, where claim C8 as stated says it is.\<close>

theorem send_alert_permit_not_recorded_counterexample:
  "(case analyze_scene_advanced dark_frame [[lone_box]] (CamInt 0) 1000 Map.empty of
      Inl e \<Rightarrow> False
    | Inr (a, tr) \<Rightarrow>
        severity_rank MEDIUM \<le> severity_rank (ea_severity a) \<and>
        (case send_alert_enhanced (CamInt 0) a 1000 (Status 500) Map.empty of
           (r, p, m) \<Rightarrow>
             map_option alert_severity p = Some CRITICAL \<and>
             map_option alert_time p = Some 1000 \<and> m (CamInt 0) = None))"
  unfolding dark_call
  by (simp add: send_alert_enhanced_def alert_cooldown_def severity_rank_def Let_def)

section \<open>The decision table\<close>

text \<open>
  Claim C1, as the code has it. \<^verbatim>\<open>analyze_scene_advanced\<close> returns the severity and the
  category of the first rule, in the specification's order 1 to 11, whose condition holds.
  In particular: one person at brightness below 50 (so at 30) is CRITICAL, "Lone Woman -
  Very Dark Area", whatever the other inputs are (rule 1 wins over every later rule); two
  persons in a well-lit frame (brightness not below 80, so at 90) are MEDIUM; three or
  more persons with a density ratio of at most 0.6 (so four persons at 0.05) are LOW.
  \<^verbatim>\<open>analyze_frame\<close> of the multi-camera monitor has a shorter table: it agrees on rule 1 and
  on three or more persons, but two persons in a well-lit frame are LOW there.
\<close>

theorem risk_decision_table:
  "(analyze_scene_advanced fr ds k now tr0 = Inr (a, tr') \<longrightarrow>
      ea_severity a = rule_severity
           (spec_rule (length (filter kept (concat ds))) (mean_gray fr)
              (detect_loitering (fst (lookup_track (snd (extract_persons now ds ([], tr0))) 0)) now)
              (list_ex (\<lambda>b. is_in_risk_zone (xyxy b) k) (filter kept (concat ds)))
              (speed_signal (fst (lookup_track (snd (extract_persons now ds ([], tr0))) 0)))
              (fst (analyze_crowd_density (fst (extract_persons now ds ([], tr0))) (shape fr)))) \<and>
      ea_alert_type a = rule_alert_type
           (spec_rule (length (filter kept (concat ds))) (mean_gray fr)
              (detect_loitering (fst (lookup_track (snd (extract_persons now ds ([], tr0))) 0)) now)
              (list_ex (\<lambda>b. is_in_risk_zone (xyxy b) k) (filter kept (concat ds)))
              (speed_signal (fst (lookup_track (snd (extract_persons now ds ([], tr0))) 0)))
              (fst (analyze_crowd_density (fst (extract_persons now ds ([], tr0))) (shape fr))))) \<and>
   (length (filter kept (concat ds)) = 1 \<and> mean_gray fr < 50 \<longrightarrow>
      (\<exists>a1 tr1. analyze_scene_advanced fr ds k now tr0 = Inr (a1, tr1) \<and>
         ea_severity a1 = CRITICAL \<and> ea_alert_type a1 = ''Lone Woman - Very Dark Area'')) \<and>
   (length (filter kept (concat ds)) = 2 \<and> \<not> mean_gray fr < 80 \<longrightarrow>
      (\<exists>a1 tr1. analyze_scene_advanced fr ds k now tr0 = Inr (a1, tr1) \<and>
         ea_severity a1 = MEDIUM \<and> ea_alert_type a1 = ''Two Persons Detected'')) \<and>
   (length (filter kept (concat ds)) \<ge> 3 \<and> 0 < fst (shape fr) * snd (shape fr) \<and>
    (\<Sum>b\<leftarrow>filter kept (concat ds). calculate_bbox_area (xyxy b)) / real (fst (shape fr) * snd (shape fr)) \<le> 0.6 \<longrightarrow>
      (\<exists>a1 tr1. analyze_scene_advanced fr ds k now tr0 = Inr (a1, tr1) \<and>
         ea_severity a1 = LOW \<and> ea_alert_type a1 = ''Multiple Persons'')) \<and>
   (length (filter kept (concat ds)) = 1 \<and> mean_gray fr < 50 \<longrightarrow>
      mc_severity (analyze_frame fr ds) = CRITICAL \<and>
      mc_alert_type (analyze_frame fr ds) = ''Lone Woman - Very Dark Area'') \<and>
   (length (filter kept (concat ds)) \<ge> 3 \<longrightarrow>
      mc_severity (analyze_frame fr ds) = LOW \<and> mc_alert_type (analyze_frame fr ds) = ''Multiple Persons'') \<and>
   (length (filter kept (concat ds)) = 2 \<and> \<not> mean_gray fr < 80 \<longrightarrow>
      mc_severity (analyze_frame fr ds) = LOW \<and> mc_alert_type (analyze_frame fr ds) = ''Normal Activity'')"
proof -
  have mc: "(length (filter kept (concat ds)) = 1 \<and> mean_gray fr < 50 \<longrightarrow>
      mc_severity (analyze_frame fr ds) = CRITICAL \<and>
      mc_alert_type (analyze_frame fr ds) = ''Lone Woman - Very Dark Area'') \<and>
   (length (filter kept (concat ds)) \<ge> 3 \<longrightarrow>
      mc_severity (analyze_frame fr ds) = LOW \<and> mc_alert_type (analyze_frame fr ds) = ''Multiple Persons'') \<and>
   (length (filter kept (concat ds)) = 2 \<and> \<not> mean_gray fr < 80 \<longrightarrow>
      mc_severity (analyze_frame fr ds) = LOW \<and> mc_alert_type (analyze_frame fr ds) = ''Normal Activity'')"
    by (simp add: analyze_frame_def Let_def kept_def [abs_def])
  show ?thesis
    using analyze_scene_advanced_rule[of fr ds k now tr0 a tr']
      rule1_wins[of ds fr k now tr0] two_persons_well_lit[of ds fr k now tr0]
      several_persons_low[of ds fr k now tr0] mc
    by blast
qed

theorem risk_decision_table_witness:
  "length (filter kept (concat [[lone_box]])) = 1 \<and> mean_gray dark_frame = 30 \<and>
   (\<exists>a1 tr1. analyze_scene_advanced dark_frame [[lone_box]] (CamInt 0) 1000 Map.empty = Inr (a1, tr1) \<and>
         ea_severity a1 = CRITICAL \<and> ea_alert_type a1 = ''Lone Woman - Very Dark Area'') \<and>
   mc_severity (analyze_frame dark_frame [[lone_box]]) = CRITICAL \<and>
   length (filter kept (concat [[box_at 0, box_at 200]])) = 2 \<and> mean_gray bright_frame = 90 \<and>
   \<not> list_ex (\<lambda>b. is_in_risk_zone (xyxy b) (CamInt 1)) (filter kept (concat [[box_at 0, box_at 200]])) \<and>
   (\<exists>a1 tr1. analyze_scene_advanced bright_frame [[box_at 0, box_at 200]] (CamInt 1) 1000 Map.empty = Inr (a1, tr1) \<and>
         ea_severity a1 = MEDIUM) \<and>
   length (filter kept (concat [[small_box 0, small_box 100, small_box 200, small_box 300]])) = 4 \<and>
   (\<Sum>b\<leftarrow>filter kept (concat [[small_box 0, small_box 100, small_box 200, small_box 300]]).
       calculate_bbox_area (xyxy b)) / real (fst (shape bright_frame) * snd (shape bright_frame)) = 0.05 \<and>
   (\<exists>a1 tr1. analyze_scene_advanced bright_frame [[small_box 0, small_box 100, small_box 200, small_box 300]]
        (CamInt 0) 1000 Map.empty = Inr (a1, tr1) \<and> ea_severity a1 = LOW)"
proof -
  have h1: "length (filter kept (concat [[lone_box]])) = 1 \<and> mean_gray dark_frame < 50 \<and> mean_gray dark_frame = 30"
    by (simp add: kept_def lone_box_def dark_frame_def)
  have h2: "length (filter kept (concat [[box_at 0, box_at 200]])) = 2 \<and> \<not> mean_gray bright_frame < 80
      \<and> mean_gray bright_frame = 90"
    by (simp add: kept_def box_at_def bright_frame_def)
  have h2z: "\<not> list_ex (\<lambda>b. is_in_risk_zone (xyxy b) (CamInt 1)) (filter kept (concat [[box_at 0, box_at 200]]))"
    by (simp add: kept_def box_at_def is_in_risk_zone_def get_location_def camera_locations_def)
  have h3: "length (filter kept (concat [[small_box 0, small_box 100, small_box 200, small_box 300]])) = 4"
    by (simp add: kept_def small_box_def)
  have h4: "(\<Sum>b\<leftarrow>filter kept (concat [[small_box 0, small_box 100, small_box 200, small_box 300]]).
       calculate_bbox_area (xyxy b)) / real (fst (shape bright_frame) * snd (shape bright_frame)) = 0.05"
    by (simp add: kept_def small_box_def bright_frame_def calculate_bbox_area_def)
  have h5: "0 < fst (shape bright_frame) * snd (shape bright_frame)"
    by (simp add: bright_frame_def)
  note t1 = risk_decision_table[where fr = dark_frame and ds = "[[lone_box]]" and k = "CamInt 0" and now = 1000 and ?tr0.0 = Map.empty]
  note t2 = risk_decision_table[where fr = bright_frame and ds = "[[box_at 0, box_at 200]]" and k = "CamInt 1" and now = 1000 and ?tr0.0 = Map.empty]
  note t3 = risk_decision_table[where fr = bright_frame
      and ds = "[[small_box 0, small_box 100, small_box 200, small_box 300]]"
      and k = "CamInt 0" and now = 1000 and ?tr0.0 = Map.empty]
  have c1: "\<exists>a1 tr1. analyze_scene_advanced dark_frame [[lone_box]] (CamInt 0) 1000 Map.empty = Inr (a1, tr1) \<and>
         ea_severity a1 = CRITICAL \<and> ea_alert_type a1 = ''Lone Woman - Very Dark Area''"
    using t1 h1 by blast
  have c1m: "mc_severity (analyze_frame dark_frame [[lone_box]]) = CRITICAL"
    using t1 h1 by blast
  have c2: "\<exists>a1 tr1. analyze_scene_advanced bright_frame [[box_at 0, box_at 200]] (CamInt 1) 1000 Map.empty = Inr (a1, tr1) \<and>
         ea_severity a1 = MEDIUM"
    using t2 h2 by blast
  have "(0.05::real) \<le> 0.6" by simp
  with h4 have h4': "(\<Sum>b\<leftarrow>filter kept (concat [[small_box 0, small_box 100, small_box 200, small_box 300]]).
       calculate_bbox_area (xyxy b)) / real (fst (shape bright_frame) * snd (shape bright_frame)) \<le> 0.6"
    by (simp only:)
  have h3': "3 \<le> length (filter kept (concat [[small_box 0, small_box 100, small_box 200, small_box 300]]))"
    unfolding h3 by simp
  have c3: "\<exists>a1 tr1. analyze_scene_advanced bright_frame [[small_box 0, small_box 100, small_box 200, small_box 300]]
        (CamInt 0) 1000 Map.empty = Inr (a1, tr1) \<and> ea_severity a1 = LOW"
    using t3 h3' h4' h5 by blast
  show ?thesis using c1 c1m c2 c3 h1 h2 h2z h3 h4 by blast
qed

text \<open>Two persons at brightness 90: \<^verbatim>\<open>analyze_frame\<close> answers LOW, where claim C1 as stated
  says MEDIUM for any frame assessment.\<close>

theorem analyze_frame_two_persons_counterexample:
  "length (filter kept (concat [[box_at 0, box_at 200]])) = 2 \<and> mean_gray bright_frame = 90 \<and>
   mc_severity (analyze_frame bright_frame [[box_at 0, box_at 200]]) = LOW"
  by (simp add: analyze_frame_def bright_frame_def box_at_def kept_def Let_def)

section \<open>The cooldown gate: the permit rule\<close>

lemma send_alert_enhanced_others:
  "k' \<noteq> k \<Longrightarrow> snd (snd (send_alert_enhanced k a now oc m)) k' = m k'"
  by (simp add: send_alert_enhanced_state)

lemma send_alert_basic_others:
  "k' \<noteq> k \<Longrightarrow> snd (send_alert_basic k a now oc m) k' = m k'"
  by (simp add: send_alert_basic_state)

text \<open>
  Claim C4, as the code has it. In the single-camera monitors (\<^verbatim>\<open>send_alert\<close>) an alert of
  qualifying severity passes the gate if and only if the feed has no entry in
  \<^verbatim>\<open>last_alert_time\<close> or \<open>now - last \<ge> 30\<close>, so a request exactly 30 after the last recorded
  one passes. In the multi-camera feed worker the gate is the strict test
  \<open>now - last > 30\<close> on a per-worker variable that starts at 0, so a request exactly 30
  after the last permitted one does not pass. In both, the entries of other feeds neither
  influence the decision nor are changed by it.
\<close>

theorem cooldown_permit_rule:
  "(fst (snd (send_alert_enhanced k a now oc m)) \<noteq> None \<longleftrightarrow>
      (case m k of None \<Rightarrow> True | Some t \<Rightarrow> now - t \<ge> 30) \<and> ea_severity a \<in> {CRITICAL, HIGH, MEDIUM}) \<and>
   (fst (send_alert_basic k b now oc m) \<noteq> None \<longleftrightarrow>
      (case m k of None \<Rightarrow> True | Some t \<Rightarrow> now - t \<ge> 30) \<and> sm_severity b \<in> {HIGH, MAY_RISK, MEDIUM}) \<and>
   (k' \<noteq> k \<longrightarrow>
      fst (snd (send_alert_enhanced k a now oc (m(k' := v)))) = fst (snd (send_alert_enhanced k a now oc m)) \<and>
      snd (snd (send_alert_enhanced k a now oc m)) k' = m k' \<and>
      fst (send_alert_basic k b now oc (m(k' := v))) = fst (send_alert_basic k b now oc m) \<and>
      snd (send_alert_basic k b now oc m) k' = m k') \<and>
   (alert_queue (snd (process_frame cam cfg c (loc, mon))) \<noteq> alert_queue mon \<longleftrightarrow>
      mc_severity (analyze_frame (cap_frame c) (cap_results c)) \<in> {CRITICAL, HIGH, MEDIUM} \<and>
      cap_clock c - last_alert_time loc > 30) \<and>
   (cam' \<noteq> cam \<longrightarrow> sys_locals (step (Frame cam cfg c) s) cam' = sys_locals s cam')"
  using send_alert_enhanced_posted[of k a now oc m] send_alert_basic_posted[of k b now oc m]
    send_alert_enhanced_indep[of k' k a now oc m v] send_alert_basic_indep[of k' k b now oc m v]
    send_alert_enhanced_others[of k' k a now oc m] send_alert_basic_others[of k' k b now oc m]
    process_frame_queue[of cam cfg c loc mon] step_frame_locals[of cam' cam cfg c s]
  by blast

theorem cooldown_permit_rule_witness:
  "CamInt 1 \<noteq> CamInt 0 \<and>
   fst (snd (send_alert_enhanced (CamInt 0) critical_analysis 1030 (Status 200)
              [CamInt 0 \<mapsto> 1000])) \<noteq> None \<and>
   fst (snd (send_alert_enhanced (CamInt 0) critical_analysis 1029 (Status 200)
              [CamInt 0 \<mapsto> 1000])) = None \<and>
   fst (snd (send_alert_enhanced (CamInt 0) critical_analysis 1001 (Status 200)
              ([CamInt 0 \<mapsto> 0](CamInt 1 := Some 1000)))) =
   fst (snd (send_alert_enhanced (CamInt 0) critical_analysis 1001 (Status 200) [CamInt 0 \<mapsto> 0]))"
proof -
  have n: "CamInt 1 \<noteq> CamInt 0" by simp
  note t30 = cooldown_permit_rule[where k = "CamInt 0" and a = critical_analysis and now = 1030
      and oc = "Status 200" and m = "[CamInt 0 \<mapsto> 1000]", THEN conjunct1]
  note t29 = cooldown_permit_rule[where k = "CamInt 0" and a = critical_analysis and now = 1029
      and oc = "Status 200" and m = "[CamInt 0 \<mapsto> 1000]", THEN conjunct1]
  note ti = cooldown_permit_rule[where k = "CamInt 0" and k' = "CamInt 1" and a = critical_analysis
      and now = 1001 and oc = "Status 200" and m = "[CamInt 0 \<mapsto> 0]" and v = "Some 1000",
      THEN conjunct2, THEN conjunct2, THEN conjunct1]
  have a: "fst (snd (send_alert_enhanced (CamInt 0) critical_analysis 1030 (Status 200)
              [CamInt 0 \<mapsto> 1000])) \<noteq> None"
    unfolding t30 by (simp add: critical_analysis_def)
  have b: "fst (snd (send_alert_enhanced (CamInt 0) critical_analysis 1029 (Status 200)
              [CamInt 0 \<mapsto> 1000])) = None"
    using t29 by (simp add: critical_analysis_def)
  show ?thesis using n a b ti by blast
qed

text \<open>The feed worker, a CRITICAL frame exactly 30 after the alert it permitted at 100: nothing
  is enqueued, where claim C4 as stated says the permit succeeds.\<close>

theorem camera_worker_exactly_thirty_counterexample:
  "130 - last_alert_time (fst (process_frame ''cam1'' cam1_config (capture_at 100)
        (\<lparr>frame_count = 30, last_alert_time = 0\<rparr>, sys_monitor initial_system))) = alert_cooldown \<and>
   mc_severity (analyze_frame (cap_frame (capture_at 130)) (cap_results (capture_at 130))) = CRITICAL \<and>
   alert_queue (snd (process_frame ''cam1'' cam1_config (capture_at 100)
        (\<lparr>frame_count = 30, last_alert_time = 0\<rparr>, sys_monitor initial_system))) = [queued_alert 100] \<and>
   process_frame ''cam1'' cam1_config (capture_at 130)
     (process_frame ''cam1'' cam1_config (capture_at 100)
        (\<lparr>frame_count = 30, last_alert_time = 0\<rparr>, sys_monitor initial_system))
   = process_frame ''cam1'' cam1_config (capture_at 100)
        (\<lparr>frame_count = 30, last_alert_time = 0\<rparr>, sys_monitor initial_system)"
proof -
  have b: "analyze_frame dark_frame [[lone_box]] =
     \<lparr>mc_person_count = 1, mc_severity = CRITICAL, mc_alert_type = ''Lone Woman - Very Dark Area'',
      mc_brightness = 30, mc_is_dark = True, mc_persons = [\<lparr>mc_bbox = (100, 100, 200, 400), mc_confidence = 0.9\<rparr>]\<rparr>"
    by (simp add: analyze_frame_def dark_frame_def lone_box_def Let_def)
  show ?thesis
    by (simp add: process_frame_def capture_at_def b alert_cooldown_def initial_system_def Let_def
        cam1_config_def queued_alert_def)
qed

section \<open>The cooldown gate: spacing of alerts\<close>

lemma process_frame_timestamp:
  "last_alert_time (fst (process_frame cam cfg c (loc, mon))) =
     (if alert_queue (snd (process_frame cam cfg c (loc, mon))) \<noteq> alert_queue mon
      then cap_clock c else last_alert_time loc)"
  by (simp add: process_frame_def Let_def)

text \<open>
  Claim C2, as the code has it. Whatever frames a feed worker processes, the alerts it
  appends to the queue are pairwise more than 30 apart, each later one more than 30 after
  the earlier, and more than 30 after the timestamp the worker started from: the worker
  records the timestamp when it enqueues, whatever the dispatcher does with the alert later.
  In the single-camera monitors \<^verbatim>\<open>send_alert\<close> records the timestamp exactly when the alert
  was posted and answered with status 200, and leaves the table unchanged otherwise.
\<close>

theorem cooldown_spacing:
  "(\<exists>new. alert_queue (snd (camera_worker_loop cam cfg cs (loc, mon))) = alert_queue mon @ new \<and>
         sorted_wrt (\<lambda>a b. alert_time b - alert_time a > 30) new \<and>
         list_all (\<lambda>a. alert_time a - last_alert_time loc > 30) new) \<and>
   last_alert_time (fst (process_frame cam cfg c (loc, mon))) =
     (if alert_queue (snd (process_frame cam cfg c (loc, mon))) \<noteq> alert_queue mon
      then cap_clock c else last_alert_time loc) \<and>
   snd (snd (send_alert_enhanced k a now oc m)) =
     (if fst (snd (send_alert_enhanced k a now oc m)) \<noteq> None \<and> oc = Status 200
      then m(k \<mapsto> now) else m) \<and>
   snd (send_alert_basic k b now oc m) =
     (if fst (send_alert_basic k b now oc m) \<noteq> None \<and> oc = Status 200
      then m(k \<mapsto> now) else m)"
  using camera_worker_loop_spaced[of cam cfg cs loc mon] process_frame_timestamp[of cam cfg c loc mon]
    send_alert_enhanced_state[of k a now oc m] send_alert_basic_state[of k b now oc m]
  by (intro conjI)

text \<open>The enhanced monitor on two frames one time-unit apart, the endpoint answering 500:
  both alerts pass the gate and are posted, where claim C2 as stated allows none within
  30 of the last one that passed.\<close>

theorem send_alert_failed_dispatch_counterexample:
  "(case analyze_scene_advanced dark_frame [[lone_box]] (CamInt 0) 1000 Map.empty of
      Inl e \<Rightarrow> False
    | Inr (a1, tr1) \<Rightarrow>
        (case send_alert_enhanced (CamInt 0) a1 1000 (Status 500) Map.empty of
           (r1, p1, m1) \<Rightarrow>
             (case analyze_scene_advanced dark_frame [[lone_box]] (CamInt 0) 1001 tr1 of
                Inl e \<Rightarrow> False
              | Inr (a2, tr2) \<Rightarrow>
                  (case send_alert_enhanced (CamInt 0) a2 1001 (Status 500) m1 of
                     (r2, p2, m2) \<Rightarrow>
                       map_option alert_time p1 = Some 1000 \<and>
                       map_option alert_time p2 = Some 1001 \<and>
                       (1001::real) - 1000 < alert_cooldown))))"
  unfolding dark_call
  by (simp add: analyze_scene_advanced_def dark_frame_def lone_box_def update_tracking_def
      lookup_track_def default_track_def deque_append_def analyze_crowd_density_def
      calculate_bbox_area_def send_alert_enhanced_def alert_cooldown_def Let_def)

section \<open>The dispatcher\<close>

lemma step_dispatch_stats:
  "camera_stats (sys_monitor (step (Dispatch oc) s)) = camera_stats (sys_monitor s)"
  using alert_sender_iteration_stats[of oc "sys_monitor s" "sys_trace s"]
  by (cases "alert_sender_iteration oc (sys_monitor s, sys_trace s)") simp

lemma camera_worker_frame_counter:
  "alerts_sent (camera_stats (snd (camera_worker_frame cam cfg c (loc, mon))) cam) + length (alert_queue mon) =
   alerts_sent (camera_stats mon cam) + length (alert_queue (snd (camera_worker_frame cam cfg c (loc, mon))))"
  by (simp add: camera_worker_frame_def process_frame_def Let_def)

text \<open>
  Claim C6, as the code has it. While the monitor is running, the sender loop completes
  every iteration whatever each POST does: after as many iterations as outcomes, that many
  alerts have left the queue (none is put back), each was posted exactly once in queue
  order, at most one line was printed per iteration, none of them the success line when
  every outcome is a failure, and the per-feed statistics are as before. A queued alert
  whose POST is answered with a status other than 200 is dropped with the failed-status
  line; one whose POST raises is dropped with the error line, or with no line at all when
  the text of the exception contains \<^verbatim>\<open>Empty\<close>. No step of the sender changes a counter.
  The counter \<^verbatim>\<open>alerts_sent\<close> is incremented by the feed worker when it enqueues an alert:
  on every frame it grows by exactly the number of alerts enqueued.
\<close>

theorem sender_drops_failed_alerts:
  "(running mon \<longrightarrow>
      (\<exists>ls. (case alert_sender_worker os (mon, tr) of (mon', tr') \<Rightarrow>
           alert_queue mon' = drop (length os) (alert_queue mon) \<and>
           posted tr' = posted tr @ take (length os) (alert_queue mon) \<and>
           camera_stats mon' = camera_stats mon \<and>
           printed tr' = printed tr @ ls \<and> length ls \<le> length os \<and>
           (list_all (\<lambda>oc. oc \<noteq> Status 200) os \<longrightarrow> AlertSent \<notin> set ls)))) \<and>
   (alert_queue mon = al # rest \<longrightarrow>
      (code \<noteq> 200 \<longrightarrow>
         alert_sender_iteration (Status code) (mon, tr) =
           (mon\<lparr>alert_queue := rest\<rparr>,
            tr\<lparr>posted := posted tr @ [al], printed := printed tr @ [FailedStatus code]\<rparr>)) \<and>
      alert_sender_iteration (TransportError msg) (mon, tr) =
           (mon\<lparr>alert_queue := rest\<rparr>,
            tr\<lparr>posted := posted tr @ [al],
               printed := printed tr @ (if str_contains ''Empty'' msg then [] else [SenderError])\<rparr>)) \<and>
   camera_stats (sys_monitor (step (Dispatch oc) s)) = camera_stats (sys_monitor s) \<and>
   alerts_sent (camera_stats (snd (camera_worker_frame cam cfg c (loc, mon))) cam) + length (alert_queue mon) =
   alerts_sent (camera_stats mon cam) + length (alert_queue (snd (camera_worker_frame cam cfg c (loc, mon))))"
  using alert_sender_worker_drops[of mon os tr] step_dispatch_stats[of oc s]
    camera_worker_frame_counter[of cam cfg c loc mon]
    alert_sender_iteration_failed[of mon al rest code tr msg]
  by blast

theorem sender_drops_failed_alerts_witness:
  "running loaded_monitor \<and>
   list_all (\<lambda>oc. oc \<noteq> Status 200)
     [Status 500, TransportError ''Empty reply from server'', TransportError ''Connection refused''] \<and>
   alert_queue loaded_monitor = [queued_alert 1000, queued_alert 1040] \<and>
   alert_sender_worker
       [Status 500, TransportError ''Empty reply from server'', TransportError ''Connection refused'']
       (loaded_monitor, \<lparr>posted = [], printed = []\<rparr>) =
     (loaded_monitor\<lparr>alert_queue := []\<rparr>,
      \<lparr>posted = [queued_alert 1000, queued_alert 1040],
       printed = [FailedStatus 500, SenderError]\<rparr>) \<and>
   alert_sender_iteration (TransportError ''Empty reply from server'')
       (loaded_monitor, \<lparr>posted = [], printed = []\<rparr>) =
     (loaded_monitor\<lparr>alert_queue := [queued_alert 1040]\<rparr>,
      \<lparr>posted = [queued_alert 1000], printed = []\<rparr>) \<and>
   alerts_sent (camera_stats (fst (alert_sender_worker
       [Status 500, TransportError ''Empty reply from server'', TransportError ''Connection refused'']
       (loaded_monitor, \<lparr>posted = [], printed = []\<rparr>))) ''cam1'') = 2"
proof -
  let ?os = "[Status 500, TransportError ''Empty reply from server'', TransportError ''Connection refused'']"
  have r: "running loaded_monitor" by (simp add: loaded_monitor_def)
  have f: "list_all (\<lambda>oc. oc \<noteq> Status 200) ?os" by simp
  have q: "alert_queue loaded_monitor = [queued_alert 1000, queued_alert 1040]"
    by (simp add: loaded_monitor_def)
  have e: "alert_sender_worker ?os (loaded_monitor, \<lparr>posted = [], printed = []\<rparr>) =
     (loaded_monitor\<lparr>alert_queue := []\<rparr>,
      \<lparr>posted = [queued_alert 1000, queued_alert 1040],
       printed = [FailedStatus 500, SenderError]\<rparr>)"
    by (simp add: loaded_monitor_def alert_sender_iteration_def handler_prints_def Let_def)
  note t = sender_drops_failed_alerts[where mon = loaded_monitor and os = ?os
      and tr = "\<lparr>posted = [], printed = []\<rparr>" and al = "queued_alert 1000"
      and rest = "[queued_alert 1040]" and msg = "''Empty reply from server''"]
  from t[THEN conjunct2, THEN conjunct1] q
  have i: "alert_sender_iteration (TransportError ''Empty reply from server'')
       (loaded_monitor, \<lparr>posted = [], printed = []\<rparr>) =
     (loaded_monitor\<lparr>alert_queue := [queued_alert 1040]\<rparr>,
      \<lparr>posted = [queued_alert 1000], printed = []\<rparr>)"
    by simp
  from t[THEN conjunct1] r
  have "camera_stats (fst (alert_sender_worker ?os
       (loaded_monitor, \<lparr>posted = [], printed = []\<rparr>))) = camera_stats loaded_monitor"
    by (auto simp: case_prod_beta)
  then have c: "alerts_sent (camera_stats (fst (alert_sender_worker ?os
       (loaded_monitor, \<lparr>posted = [], printed = []\<rparr>))) ''cam1'') = 2"
    by (simp add: loaded_monitor_def)
  show ?thesis using r f q e i c by simp
qed

text \<open>One feed, thirty frames, then a dispatch answered with 500: the only dispatch attempt
  fails, and the feed's \<^verbatim>\<open>alerts_sent\<close> has grown from 0 to 1, where claim C6 as stated says
  the counters do not grow.\<close>

theorem alerts_sent_grows_counterexample:
  "alerts_sent (camera_stats (sys_monitor initial_system) ''cam1'') = 0 \<and>
   alerts_sent (camera_stats (sys_monitor
      (run (replicate 29 (Frame ''cam1'' cam1_config (capture_at 1000)) @
            [Frame ''cam1'' cam1_config (capture_at 1000), Dispatch (Status 500)])
         initial_system)) ''cam1'') = 1 \<and>
   printed (sys_trace
      (run (replicate 29 (Frame ''cam1'' cam1_config (capture_at 1000)) @
            [Frame ''cam1'' cam1_config (capture_at 1000), Dispatch (Status 500)])
         initial_system)) = [FailedStatus 500]"
proof -
  have r: "run (xs @ ys) s = run ys (run xs s)" for xs ys s by (simp add: run_def)
  show ?thesis
    unfolding r idle_frames[of 29, simplified]
    by (simp add: run_def initial_system_def camera_worker_frame_def process_frame_def
      alert_sender_iteration_def capture_at_def analyze_dark_lone Let_def)
qed

section \<open>Determinism and state of the risk engine\<close>

text \<open>
  Claim C7, as the code has it. Two runs of \<^verbatim>\<open>analyze_scene_advanced\<close> that agree on the
  person count, the brightness, the crowd-density bucket, the risk-zone membership and
  the loitering and speed signals of track \<^verbatim>\<open>person_0\<close> (read after the run has recorded its
  own samples) return the same severity and category; on well-formed tracks the function
  returns and leaves the tracks well-formed. \<^verbatim>\<open>analyze_frame\<close> and \<^verbatim>\<open>analyze_scene\<close> keep no
  state: their severity is determined by the kept detections and the brightness.
\<close>

theorem severity_determined_by_signals:
  "(analyze_scene_advanced fr ds k now tr0 = Inr (a, tr') \<and>
    analyze_scene_advanced fr2 ds2 k2 now2 tr02 = Inr (a2, tr2') \<and>
    length (filter kept (concat ds)) = length (filter kept (concat ds2)) \<and>
    mean_gray fr = mean_gray fr2 \<and>
    fst (analyze_crowd_density (fst (extract_persons now ds ([], tr0))) (shape fr)) =
      fst (analyze_crowd_density (fst (extract_persons now2 ds2 ([], tr02))) (shape fr2)) \<and>
    detect_loitering (fst (lookup_track (snd (extract_persons now ds ([], tr0))) 0)) now =
      detect_loitering (fst (lookup_track (snd (extract_persons now2 ds2 ([], tr02))) 0)) now2 \<and>
    speed_signal (fst (lookup_track (snd (extract_persons now ds ([], tr0))) 0)) =
      speed_signal (fst (lookup_track (snd (extract_persons now2 ds2 ([], tr02))) 0)) \<and>
    list_ex (\<lambda>b. is_in_risk_zone (xyxy b) k) (filter kept (concat ds)) =
      list_ex (\<lambda>b. is_in_risk_zone (xyxy b) k2) (filter kept (concat ds2))
    \<longrightarrow> ea_severity a = ea_severity a2 \<and> ea_alert_type a = ea_alert_type a2) \<and>
   (tracks_wf tr0 \<longrightarrow> (\<exists>a1 tr1. analyze_scene_advanced fr ds k now tr0 = Inr (a1, tr1) \<and> tracks_wf tr1)) \<and>
   (length (filter kept (concat ds)) = length (filter kept (concat ds2)) \<and> mean_gray fr = mean_gray fr2 \<longrightarrow>
      mc_severity (analyze_frame fr ds) = mc_severity (analyze_frame fr2 ds2)) \<and>
   (length (filter (\<lambda>b. kept b \<and> tall b) (concat ds)) = length (filter (\<lambda>b. kept b \<and> tall b) (concat ds2)) \<and>
    length (filter (\<lambda>b. kept b \<and> \<not> tall b) (concat ds)) = length (filter (\<lambda>b. kept b \<and> \<not> tall b) (concat ds2)) \<and>
    (mean_gray fr < 70) = (mean_gray fr2 < 70) \<longrightarrow>
      sm_severity (analyze_scene fr ds) = sm_severity (analyze_scene fr2 ds2))"
proof -
  have 1: "ea_severity a = ea_severity a2 \<and> ea_alert_type a = ea_alert_type a2"
    if "analyze_scene_advanced fr ds k now tr0 = Inr (a, tr')"
      "analyze_scene_advanced fr2 ds2 k2 now2 tr02 = Inr (a2, tr2')"
      "length (filter kept (concat ds)) = length (filter kept (concat ds2))"
      "mean_gray fr = mean_gray fr2"
      "fst (analyze_crowd_density (fst (extract_persons now ds ([], tr0))) (shape fr)) =
        fst (analyze_crowd_density (fst (extract_persons now2 ds2 ([], tr02))) (shape fr2))"
      "detect_loitering (fst (lookup_track (snd (extract_persons now ds ([], tr0))) 0)) now =
        detect_loitering (fst (lookup_track (snd (extract_persons now2 ds2 ([], tr02))) 0)) now2"
      "speed_signal (fst (lookup_track (snd (extract_persons now ds ([], tr0))) 0)) =
        speed_signal (fst (lookup_track (snd (extract_persons now2 ds2 ([], tr02))) 0))"
      "list_ex (\<lambda>b. is_in_risk_zone (xyxy b) k) (filter kept (concat ds)) =
        list_ex (\<lambda>b. is_in_risk_zone (xyxy b) k2) (filter kept (concat ds2))"
    using analyze_scene_advanced_rule[OF that(1)] analyze_scene_advanced_rule[OF that(2)]
    unfolding that(3-8) by simp
  have 3: "mc_severity (analyze_frame fr ds) = mc_severity (analyze_frame fr2 ds2)"
    if "length (filter kept (concat ds)) = length (filter kept (concat ds2))" "mean_gray fr = mean_gray fr2"
    unfolding analyze_frame_table that by simp
  have 4: "sm_severity (analyze_scene fr ds) = sm_severity (analyze_scene fr2 ds2)"
    if "length (filter (\<lambda>b. kept b \<and> tall b) (concat ds)) = length (filter (\<lambda>b. kept b \<and> tall b) (concat ds2))"
     "length (filter (\<lambda>b. kept b \<and> \<not> tall b) (concat ds)) = length (filter (\<lambda>b. kept b \<and> \<not> tall b) (concat ds2))"
     "(mean_gray fr < 70) = (mean_gray fr2 < 70)"
    unfolding analyze_scene_severity that by simp
  show ?thesis
    using 1 3 4 analyze_scene_advanced_returns[of tr0 fr ds k now] by blast
qed

lemma bright_call:
  "analyze_scene_advanced bright_frame [[box_at x]] k t Map.empty =
     Inr (\<lparr>ea_person_count = 1, ea_severity = MEDIUM, ea_alert_type = ''Lone Woman Detected'',
           ea_brightness = 90, ea_is_dark = False, ea_crowd_level = Sparse,
           ea_crowd_density = 20000 / 307200, ea_risk_factors = [],
           ea_persons = [\<lparr>pid = 0, pbbox = (x, 0, x + 100, 200), center = ((x + (x + 100)) / 2, 100), confidence = 0.9\<rparr>]\<rparr>,
          [0 \<mapsto> \<lparr>positions = [((x + (x + 100)) / 2, 100)], timestamps = [t], first_seen = Some t, last_alerted = None\<rparr>])"
  by (simp add: analyze_scene_advanced_def bright_frame_def box_at_def update_tracking_def
      lookup_track_def default_track_def deque_append_def analyze_crowd_density_def
      calculate_bbox_area_def calculate_speed_def detect_running_def Let_def)

theorem severity_determined_by_signals_witness:
  "tracks_wf Map.empty \<and>
   (\<exists>a tr a2 tr2.
      analyze_scene_advanced bright_frame [[box_at 0]] (CamInt 0) 1000 Map.empty = Inr (a, tr) \<and>
      analyze_scene_advanced bright_frame [[box_at 300]] (CamInt 1) 2000 Map.empty = Inr (a2, tr2) \<and>
      ea_severity a = ea_severity a2)"
proof -
  have w: "tracks_wf Map.empty" by (simp add: tracks_wf_def)
  from severity_determined_by_signals[where fr = bright_frame and ds = "[[box_at 0]]" and k = "CamInt 0"
      and now = 1000 and ?tr0.0 = Map.empty, THEN conjunct2, THEN conjunct1] w
  obtain a tr where r1: "analyze_scene_advanced bright_frame [[box_at 0]] (CamInt 0) 1000 Map.empty = Inr (a, tr)"
    by blast
  from severity_determined_by_signals[where fr = bright_frame and ds = "[[box_at 300]]" and k = "CamInt 1"
      and now = 2000 and ?tr0.0 = Map.empty, THEN conjunct2, THEN conjunct1] w
  obtain a2 tr2 where r2: "analyze_scene_advanced bright_frame [[box_at 300]] (CamInt 1) 2000 Map.empty = Inr (a2, tr2)"
    by blast
  have h: "length (filter kept (concat [[box_at 0]])) = length (filter kept (concat [[box_at 300]])) \<and>
    mean_gray bright_frame = mean_gray bright_frame \<and>
    fst (analyze_crowd_density (fst (extract_persons 1000 [[box_at 0]] ([], Map.empty))) (shape bright_frame)) =
      fst (analyze_crowd_density (fst (extract_persons 2000 [[box_at 300]] ([], Map.empty))) (shape bright_frame)) \<and>
    detect_loitering (fst (lookup_track (snd (extract_persons 1000 [[box_at 0]] ([], Map.empty))) 0)) 1000 =
      detect_loitering (fst (lookup_track (snd (extract_persons 2000 [[box_at 300]] ([], Map.empty))) 0)) 2000 \<and>
    speed_signal (fst (lookup_track (snd (extract_persons 1000 [[box_at 0]] ([], Map.empty))) 0)) =
      speed_signal (fst (lookup_track (snd (extract_persons 2000 [[box_at 300]] ([], Map.empty))) 0)) \<and>
    list_ex (\<lambda>b. is_in_risk_zone (xyxy b) (CamInt 0)) (filter kept (concat [[box_at 0]])) =
      list_ex (\<lambda>b. is_in_risk_zone (xyxy b) (CamInt 1)) (filter kept (concat [[box_at 300]]))"
    by (simp add: kept_def box_at_def bright_frame_def update_tracking_def lookup_track_def
        default_track_def deque_append_def analyze_crowd_density_def calculate_bbox_area_def
        detect_loitering_def speed_signal_def calculate_speed_def is_in_risk_zone_def
        get_location_def camera_locations_def Let_def)
  from severity_determined_by_signals[where fr = bright_frame and ds = "[[box_at 0]]" and k = "CamInt 0"
      and now = 1000 and ?tr0.0 = Map.empty and ?fr2.0 = bright_frame and ?ds2.0 = "[[box_at 300]]"
      and ?k2.0 = "CamInt 1" and ?now2.0 = 2000 and ?tr02.0 = Map.empty
      and a = a and tr' = tr and ?a2.0 = a2 and tr2' = tr2, THEN conjunct1] r1 r2 h
  have "ea_severity a = ea_severity a2" by blast
  with r1 r2 w show ?thesis by blast
qed

text \<open>The enhanced assessment is not free of side effects: a person at x = 1000 in a
  well-lit frame is MEDIUM on fresh tracks, and HIGH ("running") when an assessment one
  time-unit earlier has recorded a person at x = 0 under the same index.\<close>

theorem earlier_assessment_changes_later_counterexample:
  "(case analyze_scene_advanced bright_frame [[box_at 1000]] (CamInt 0) 1001 Map.empty of
      Inr (a, tr) \<Rightarrow> ea_severity a = MEDIUM | Inl e \<Rightarrow> False) \<and>
   (case analyze_scene_advanced bright_frame [[box_at 0]] (CamInt 0) 1000 Map.empty of
      Inr (a0, tr1) \<Rightarrow>
        (case analyze_scene_advanced bright_frame [[box_at 1000]] (CamInt 0) 1001 tr1 of
           Inr (a, tr) \<Rightarrow> ea_severity a = HIGH | Inl e \<Rightarrow> False)
    | Inl e \<Rightarrow> False)"
  unfolding bright_call
  by (simp add: analyze_scene_advanced_def bright_frame_def box_at_def update_tracking_def
      lookup_track_def default_track_def deque_append_def analyze_crowd_density_def
      calculate_bbox_area_def calculate_speed_def detect_running_def Let_def sqrt_million)

end
